theory Spec2Isabelle
  imports Main "HOL-Library.Sublist"
begin

section \<open>The recursive discovery controller of lib/controller/controller.py\<close>

text \<open>
  A shallow embedding of \<^verbatim>\<open>Controller\<close>. Python \<^verbatim>\<open>str\<close> and \<^verbatim>\<open>bytes\<close> values
  are \<^typ>\<open>string\<close>s, the mutable attributes of \<^verbatim>\<open>self\<close> are the fields of the record
  \<open>state\<close>, the read-only \<^verbatim>\<open>self.arguments\<close> are the record \<open>config\<close>, every raise is
  a value of \<open>exn\<close>, and every call into a collaborator that is not part of the controller
  (output, report manager, error log file, fuzzer) is appended to the field \<open>trace\<close>.
  The callbacks run one after the other: the threads of the fuzzer are not modelled.
\<close>

subsection \<open>Python string operations used by the controller\<close>

definition startswith :: "string \<Rightarrow> string \<Rightarrow> bool" where
  "startswith s p = prefix p s"

definition endswith :: "string \<Rightarrow> string \<Rightarrow> bool" where
  "endswith s p = suffix p s"

text \<open>\<^verbatim>\<open>s.rstrip(cs)\<close>: drop every trailing character that occurs in \<open>cs\<close>.\<close>

definition rstrip :: "string \<Rightarrow> string \<Rightarrow> string" where
  "rstrip s cs = rev (dropWhile (\<lambda>c. c \<in> set cs) (rev s))"

text \<open>\<^verbatim>\<open>s.count("/")\<close>, the depth of a frontier entry.\<close>

definition count_slash :: "string \<Rightarrow> int" where
  "count_slash s = int (count_list s CHR ''/'')"

subsection \<open>Data\<close>

datatype exn =
    RequestException string
  | SkipTargetInterrupt
  | KeyboardInterrupt
  | SystemExit int
  | UnicodeDecodeError
  | ValueError
  | ReError
  | AttributeError

record response =
  body :: string
  redirect :: "string option"

text \<open>The object handed to the callbacks: candidate path, optional status, response.\<close>

record scan_path =
  path :: string
  status :: "int option"
  response :: response

text \<open>The three report sinks, each built from host, port, protocol, base path, output file.\<close>

datatype report =
    SimpleReport string int string string string
  | JSONReport string int string string string
  | PlainTextReport string int string string string

datatype event =
    Out_target string
  | Out_error string
  | Out_warning string
  | Out_status_report string response
  | Out_lastPath string int nat
  | Out_add_connection_error
  | RM_new
  | RM_add_output report
  | RM_add_path string "int option" response
  | RM_save
  | RM_close
  | Log_write string
  | Log_flush
  | Log_close
  | Fuzzer_start string

text \<open>\<^verbatim>\<open>self.arguments\<close> and the attributes copied from it once in \<^verbatim>\<open>__init__\<close>.\<close>

record config =
  recursive :: bool
  recursive_level_max :: int
  excludeSubdirs :: "string list"
  excludeStatusCodes :: "int list"
  excludeTexts :: "string list"
  excludeRegexps :: "string list"
  suppressEmpty :: bool
  blacklists :: "int \<rightharpoonup> string list"
  scanSubdirs :: "string list option"
  autoSave :: bool
  autoSaveFormat :: string
  simpleOutputFile :: "string option"
  plainTextOutputFile :: "string option"
  jsonOutputFile :: "string option"

text \<open>
  The mutable attributes. \<open>directories\<close> is the \<^verbatim>\<open>Queue\<close>: \<^verbatim>\<open>put\<close> appends at the end,
  \<^verbatim>\<open>get\<close> takes the head. \<open>has_reportManager\<close> says whether \<^verbatim>\<open>self.reportManager\<close> has
  been assigned yet; \<open>errorLog_closed\<close> is \<^verbatim>\<open>self.errorLog.closed\<close>.
\<close>

record state =
  index :: int
  currentUrl :: string
  currentDirectory :: string
  basePath :: string
  directories :: "string list"
  doneDirs :: "string list"
  has_reportManager :: bool
  errorLog_closed :: bool
  trace :: "event list"

text \<open>
  What the library functions called by the controller answer. They are not code of the
  controller and are parameters of the model: \<^verbatim>\<open>urllib.parse.urljoin\<close> (\<open>None\<close> when
  it raises \<^verbatim>\<open>ValueError\<close>, as it does on a malformed reference such as \<^verbatim>\<open>//[\<close>),
  \<^verbatim>\<open>bytes.decode\<close> (\<open>None\<close> when it raises \<^verbatim>\<open>UnicodeDecodeError\<close>),
  \<^verbatim>\<open>re.search(pattern, text) is not None\<close> (\<open>None\<close> when \<^verbatim>\<open>re.search\<close> raises \<^verbatim>\<open>re.error\<close>,
  as it does on a pattern that does not compile), \<^verbatim>\<open>time.strftime\<close>, \<^verbatim>\<open>os.linesep\<close> and
  \<^verbatim>\<open>len(self.dictionary)\<close>.
\<close>

record env =
  urljoin :: "string \<Rightarrow> string \<Rightarrow> string option"
  decode :: "string \<Rightarrow> string option"
  re_search :: "string \<Rightarrow> string \<Rightarrow> bool option"
  strftime :: "string \<Rightarrow> string"
  linesep :: string
  dictionary_len :: nat

subsection \<open>Frontier pushes\<close>

text \<open>\<^verbatim>\<open>Controller.add_directory\<close>, lines 438-461. The result is the returned flag and the state.\<close>

definition add_directory :: "config \<Rightarrow> state \<Rightarrow> string \<Rightarrow> bool \<times> state" where
  "add_directory cfg s p =
     (if \<not> recursive cfg then (False, s)
      else if endswith p ''/'' then
        (if p \<in> set (map (\<lambda>directory. directory @ ''/'') (excludeSubdirs cfg)) then (False, s)
         else
           let dir = currentDirectory s @ p in
           if dir \<in> set (doneDirs s) then (False, s)
           else if count_slash dir > recursive_level_max cfg then (False, s)
           else (True, s\<lparr>directories := directories s @ [dir],
                          doneDirs := doneDirs s @ [dir]\<rparr>))
      else (False, s))"

text \<open>
  \<^verbatim>\<open>baseUrl\<close> and \<^verbatim>\<open>absoluteUrl\<close> of \<^verbatim>\<open>add_redirect_directory\<close>, lines 469-470. A
  \<^verbatim>\<open>redirect\<close> of \<^verbatim>\<open>None\<close> is passed to \<^verbatim>\<open>urljoin\<close> as the empty reference (both are
  falsy there). \<open>None\<close> is the \<^verbatim>\<open>ValueError\<close> of \<^verbatim>\<open>urljoin\<close>.
\<close>

definition redirect_baseUrl :: "state \<Rightarrow> string" where
  "redirect_baseUrl s = rstrip (currentUrl s) ''/'' @ ''/'' @ currentDirectory s"

definition redirect_absoluteUrl :: "env \<Rightarrow> state \<Rightarrow> scan_path \<Rightarrow> string option" where
  "redirect_absoluteUrl E s p =
     urljoin E (redirect_baseUrl s)
       (case redirect (response p) of None \<Rightarrow> [] | Some r \<Rightarrow> r)"

text \<open>\<^verbatim>\<open>dir = absoluteUrl[len(baseUrl):]\<close>, line 472.\<close>

definition redirect_dir :: "state \<Rightarrow> string \<Rightarrow> string" where
  "redirect_dir s absoluteUrl = drop (length (redirect_baseUrl s)) absoluteUrl"

text \<open>
  \<^verbatim>\<open>Controller.add_redirect_directory\<close>, lines 463-486. The call either raises (\<open>Inl\<close>:
  line 470 comes before every assignment, so the attributes are as they were) or returns
  the flag and the state.
\<close>

definition add_redirect_directory ::
  "env \<Rightarrow> config \<Rightarrow> state \<Rightarrow> scan_path \<Rightarrow> exn + bool \<times> state" where
  "add_redirect_directory E cfg s p =
     (if \<not> recursive cfg then Inr (False, s)
      else
        (case redirect_absoluteUrl E s p of
           None \<Rightarrow> Inl ValueError
         | Some absoluteUrl \<Rightarrow>
             (let baseUrl = redirect_baseUrl s in
              if startswith absoluteUrl baseUrl \<and> absoluteUrl \<noteq> baseUrl
                 \<and> endswith absoluteUrl ''/''
              then
                (let dir = redirect_dir s absoluteUrl in
                 if dir \<in> set (doneDirs s) then Inr (False, s)
                 else if count_slash dir > recursive_level_max cfg then Inr (False, s)
                 else Inr (True, s\<lparr>directories := directories s @ [dir],
                                     doneDirs := doneDirs s @ [dir]\<rparr>))
              else Inr (False, s))))"

subsection \<open>URL-reference resolution\<close>

text \<open>
  Modelled from the spec: \<^verbatim>\<open>urllib.parse.urljoin\<close> is the Python standard library's and not
  under src/. The spec calls it standard URL-reference resolution (relative references
  resolved per base-URI rules; absolute references pass through unchanged). The model
  follows the library function of that name: split both arguments into scheme, netloc,
  path, params, query and fragment, merge the paths and remove the dot segments. Like the
  library it raises (\<open>None\<close>) when a netloc has one square bracket without the other. It
  leaves out the library's stripping of control characters, its validation of a bracketed
  host as an IP literal and its normalisation check of a netloc that is not ASCII. It is
  used where a property is about the resolved URL of a concrete redirect; the general
  theorems hold for any \<open>urljoin\<close>.
\<close>

definition scheme_chars :: string where
  "scheme_chars = ''abcdefghijklmnopqrstuvwxyzABCDEFGHIJKLMNOPQRSTUVWXYZ0123456789+-.''"

definition ascii_lowercase :: string where
  "ascii_lowercase = ''abcdefghijklmnopqrstuvwxyz''"

definition ascii_uppercase :: string where
  "ascii_uppercase = ''ABCDEFGHIJKLMNOPQRSTUVWXYZ''"

definition lower_char :: "char \<Rightarrow> char" where
  "lower_char c = (case map_of (zip ascii_uppercase ascii_lowercase) c of None \<Rightarrow> c | Some l \<Rightarrow> l)"

definition uses_relative :: "string list" where
  "uses_relative = [[], ''ftp'', ''http'', ''gopher'', ''nntp'', ''imap'', ''wais'', ''file'',
     ''https'', ''shttp'', ''mms'', ''prospero'', ''rtsp'', ''rtsps'', ''rtspu'', ''sftp'',
     ''svn'', ''svn+ssh'', ''ws'', ''wss'']"

definition uses_netloc :: "string list" where
  "uses_netloc = [[], ''ftp'', ''http'', ''gopher'', ''nntp'', ''telnet'', ''imap'', ''wais'',
     ''file'', ''mms'', ''https'', ''shttp'', ''snews'', ''prospero'', ''rtsp'', ''rtsps'',
     ''rtspu'', ''rsync'', ''svn'', ''svn+ssh'', ''sftp'', ''nfs'', ''git'', ''git+ssh'',
     ''ws'', ''wss'']"

definition uses_params :: "string list" where
  "uses_params = [[], ''ftp'', ''hdl'', ''prospero'', ''http'', ''imap'', ''https'', ''shttp'',
     ''rtsp'', ''rtsps'', ''rtspu'', ''sip'', ''sips'', ''mms'', ''sftp'', ''tel'']"

definition split_first :: "char \<Rightarrow> string \<Rightarrow> string \<times> string" where
  "split_first c s = (takeWhile (\<lambda>x. x \<noteq> c) s, drop 1 (dropWhile (\<lambda>x. x \<noteq> c) s))"

definition split_scheme :: "string \<Rightarrow> string \<Rightarrow> string \<times> string" where
  "split_scheme url dflt =
     (let pre = takeWhile (\<lambda>c. c \<noteq> CHR '':'') url in
      if length pre < length url \<and> pre \<noteq> []
         \<and> hd pre \<in> set (ascii_lowercase @ ascii_uppercase)
         \<and> list_all (\<lambda>c. c \<in> set scheme_chars) pre
      then (map lower_char pre, drop (Suc (length pre)) url)
      else (dflt, url))"

definition splitnetloc :: "string \<Rightarrow> string \<times> string" where
  "splitnetloc url =
     (takeWhile (\<lambda>c. c \<notin> set ''/?#'') (drop 2 url),
      dropWhile (\<lambda>c. c \<notin> set ''/?#'') (drop 2 url))"

text \<open>\<open>None\<close> is the library's \<^verbatim>\<open>ValueError("Invalid IPv6 URL")\<close>.\<close>

definition urlsplit ::
  "string \<Rightarrow> string \<Rightarrow> (string \<times> string \<times> string \<times> string \<times> string) option" where
  "urlsplit url dflt =
     (let (scheme, u1) = split_scheme url dflt;
          (netloc, u2) = (if take 2 u1 = ''//'' then splitnetloc u1 else ([], u1))
      in if (CHR ''['' \<in> set netloc \<and> CHR '']'' \<notin> set netloc)
            \<or> (CHR '']'' \<in> set netloc \<and> CHR ''['' \<notin> set netloc)
         then None
         else
           (let (u3, fragment) = split_first CHR ''#'' u2;
                (u4, query) = split_first CHR ''?'' u3
            in Some (scheme, netloc, u4, query, fragment)))"

definition splitparams :: "string \<Rightarrow> string \<times> string" where
  "splitparams url =
     (if CHR ''/'' \<in> set url then
        (let seg = rev (takeWhile (\<lambda>c. c \<noteq> CHR ''/'') (rev url));
             front = take (length url - length seg) url
         in if CHR '';'' \<in> set seg
            then (front @ fst (split_first CHR '';'' seg), snd (split_first CHR '';'' seg))
            else (url, []))
      else split_first CHR '';'' url)"

definition urlparse ::
  "string \<Rightarrow> string
     \<Rightarrow> (string \<times> string \<times> string \<times> string \<times> string \<times> string) option" where
  "urlparse url dflt =
     map_option
       (\<lambda>(scheme, netloc, u, query, fragment).
          let (u', params) = (if scheme \<in> set uses_params \<and> CHR '';'' \<in> set u
                              then splitparams u else (u, []))
          in (scheme, netloc, u', params, query, fragment))
       (urlsplit url dflt)"

definition urlunsplit :: "string \<times> string \<times> string \<times> string \<times> string \<Rightarrow> string" where
  "urlunsplit c =
     (let (scheme, netloc, url, query, fragment) = c;
          url1 = (if netloc \<noteq> [] \<or> (scheme \<noteq> [] \<and> scheme \<in> set uses_netloc) \<or> take 2 url = ''//''
                  then ''//'' @ netloc @ (if url \<noteq> [] \<and> take 1 url \<noteq> ''/'' then ''/'' @ url else url)
                  else url);
          url2 = (if scheme \<noteq> [] then scheme @ '':'' @ url1 else url1);
          url3 = (if query \<noteq> [] then url2 @ ''?'' @ query else url2)
      in if fragment \<noteq> [] then url3 @ ''#'' @ fragment else url3)"

definition urlunparse ::
  "string \<times> string \<times> string \<times> string \<times> string \<times> string \<Rightarrow> string" where
  "urlunparse c =
     (let (scheme, netloc, url, params, query, fragment) = c
      in urlunsplit (scheme, netloc, if params \<noteq> [] then url @ '';'' @ params else url,
                     query, fragment))"

fun split_on :: "char \<Rightarrow> string \<Rightarrow> string list" where
  "split_on c [] = [[]]"
| "split_on c (x # xs) =
     (if x = c then [] # split_on c xs
      else (case split_on c xs of [] \<Rightarrow> [[x]] | y # ys \<Rightarrow> (x # y) # ys))"

definition join_on :: "char \<Rightarrow> string list \<Rightarrow> string" where
  "join_on c segs = (case segs of [] \<Rightarrow> [] | t # ts \<Rightarrow> t @ concat (map (\<lambda>u. c # u) ts))"

definition filter_middle :: "string list \<Rightarrow> string list" where
  "filter_middle segs =
     (if length segs < 2 then segs
      else hd segs # filter (\<lambda>t. t \<noteq> []) (butlast (tl segs)) @ [last segs])"

fun resolve_segments :: "string list \<Rightarrow> string list \<Rightarrow> string list" where
  "resolve_segments [] resolved_path = resolved_path"
| "resolve_segments (seg # segs) resolved_path =
     (if seg = ''..'' then resolve_segments segs (butlast resolved_path)
      else if seg = ''.'' then resolve_segments segs resolved_path
      else resolve_segments segs (resolved_path @ [seg]))"

text \<open>The lines of \<^verbatim>\<open>urljoin\<close> after the two arguments have been parsed.\<close>

definition urljoin_parsed ::
  "string \<Rightarrow> string \<times> string \<times> string \<times> string \<times> string \<times> string
     \<Rightarrow> string \<times> string \<times> string \<times> string \<times> string \<times> string \<Rightarrow> string" where
  "urljoin_parsed url b r =
     (let (bscheme, bnetloc, bpath, bparams, bquery, bfragment) = b;
          (scheme, netloc, path, params, query, fragment) = r
      in
        if scheme \<noteq> bscheme \<or> scheme \<notin> set uses_relative then url
        else if scheme \<in> set uses_netloc \<and> netloc \<noteq> []
        then urlunparse (scheme, netloc, path, params, query, fragment)
        else
          let netloc' = (if scheme \<in> set uses_netloc then bnetloc else netloc) in
          if path = [] \<and> params = []
          then urlunparse (scheme, netloc', bpath, bparams,
                           if query = [] then bquery else query, fragment)
          else
            let base_parts = split_on CHR ''/'' bpath;
                base_parts' = (if last base_parts \<noteq> [] then butlast base_parts else base_parts);
                segments = (if take 1 path = ''/'' then split_on CHR ''/'' path
                            else filter_middle (base_parts' @ split_on CHR ''/'' path));
                resolved_path = resolve_segments segments [];
                resolved_path' = (if last segments = ''.'' \<or> last segments = ''..''
                                  then resolved_path @ [[]] else resolved_path);
                joined = join_on CHR ''/'' resolved_path'
            in urlunparse (scheme, netloc', if joined = [] then ''/'' else joined,
                           params, query, fragment))"

definition urljoin_std :: "string \<Rightarrow> string \<Rightarrow> string option" where
  "urljoin_std base url =
     (if base = [] then Some url
      else if url = [] then Some base
      else
        (case urlparse base [] of
           None \<Rightarrow> None
         | Some b \<Rightarrow>
             (case urlparse url (fst b) of
                None \<Rightarrow> None
              | Some r \<Rightarrow> Some (urljoin_parsed url b r))))"

text \<open>
  \<^verbatim>\<open>bytes.decode\<close> on the sample bodies: a body with the byte \<open>0xFF\<close>, which no UTF-8 text
  contains, does not decode; the other sample bodies are ASCII and decode to themselves.
\<close>

definition decode_std :: "string \<Rightarrow> string option" where
  "decode_std b = (if CHR 0xFF \<in> set b then None else Some b)"

text \<open>
  \<^verbatim>\<open>re.search\<close> on the sample patterns: a pattern of letters, digits and spaces stands for
  itself and is found where it occurs in the text; the sample pattern \<^verbatim>\<open>(\<close> does not
  compile. No other pattern is used, and none is taken to compile here.
\<close>

definition literal_pattern :: "string \<Rightarrow> bool" where
  "literal_pattern pattern =
     list_all (\<lambda>c. c \<in> set (ascii_lowercase @ ascii_uppercase @ ''0123456789 '')) pattern"

definition re_search_std :: "string \<Rightarrow> string \<Rightarrow> bool option" where
  "re_search_std pattern text =
     (if literal_pattern pattern then Some (sublist pattern text) else None)"

text \<open>The environment with the modelled resolution, decoding and pattern search.\<close>

definition std_env :: env where
  "std_env = \<lparr>urljoin = urljoin_std, decode = decode_std, re_search = re_search_std,
               strftime = (\<lambda>fmt. fmt), linesep = [CHR 0x0A], dictionary_len = 2\<rparr>"

subsection \<open>Sample inputs\<close>

definition sample_config :: config where
  "sample_config = \<lparr>recursive = True, recursive_level_max = 2, excludeSubdirs = [''admin''],
     excludeStatusCodes = [404], excludeTexts = [], excludeRegexps = [], suppressEmpty = False,
     blacklists = Map.empty, scanSubdirs = None, autoSave = False, autoSaveFormat = ''plain'',
     simpleOutputFile = None, plainTextOutputFile = None, jsonOutputFile = None\<rparr>"

definition sample_state :: "string \<Rightarrow> state" where
  "sample_state cur = \<lparr>index = 0, currentUrl = ''http://h/'', currentDirectory = cur,
     basePath = ''/'', directories = [], doneDirs = [], has_reportManager = True,
     errorLog_closed = False, trace = []\<rparr>"

definition redirected :: "string \<Rightarrow> string \<Rightarrow> scan_path" where
  "redirected p target =
     \<lparr>path = p, status = Some 301, response = \<lparr>body = [], redirect = Some target\<rparr>\<rparr>"

subsection \<open>Callbacks\<close>

text \<open>
  The loop of lines 341-344: \<^verbatim>\<open>excludeText in path.response.body.decode()\<close> for each
  excluded text in turn. \<open>Inr True\<close> is the early \<^verbatim>\<open>return\<close>, \<open>Inl\<close> the exception of
  \<^verbatim>\<open>decode\<close>. \<^verbatim>\<open>a in b\<close> on strings is \<^const>\<open>sublist\<close>.
\<close>

fun scan_texts :: "env \<Rightarrow> string list \<Rightarrow> string \<Rightarrow> exn + bool" where
  "scan_texts E [] b = Inr False"
| "scan_texts E (excludeText # rest) b =
     (case decode E b of
        None \<Rightarrow> Inl UnicodeDecodeError
      | Some txt \<Rightarrow> if sublist excludeText txt then Inr True else scan_texts E rest b)"

text \<open>
  The loop of lines 346-349, with \<^verbatim>\<open>re.search\<close> in place of the substring test. The
  argument \<^verbatim>\<open>path.response.body.decode()\<close> is evaluated before \<^verbatim>\<open>re.search\<close> is called.
\<close>

fun scan_regexps :: "env \<Rightarrow> string list \<Rightarrow> string \<Rightarrow> exn + bool" where
  "scan_regexps E [] b = Inr False"
| "scan_regexps E (excludeRegexp # rest) b =
     (case decode E b of
        None \<Rightarrow> Inl UnicodeDecodeError
      | Some txt \<Rightarrow>
          (case re_search E excludeRegexp txt of
             None \<Rightarrow> Inl ReError
           | Some found \<Rightarrow> if found then Inr True else scan_regexps E rest b))"

text \<open>The condition of lines 336-339, for a status that is not \<^verbatim>\<open>None\<close>.\<close>

definition passes_status_checks :: "config \<Rightarrow> int \<Rightarrow> scan_path \<Rightarrow> bool" where
  "passes_status_checks cfg st p =
     (st \<notin> set (excludeStatusCodes cfg)
      \<and> (case blacklists cfg st of None \<Rightarrow> True | Some bl \<Rightarrow> path p \<notin> set bl)
      \<and> \<not> (suppressEmpty cfg \<and> length (body (response p)) = 0))"

text \<open>
  Lines 351-357: what \<^verbatim>\<open>match_callback\<close> does with a result that passed every filter.
  When \<^verbatim>\<open>add_redirect_directory\<close> raises, the result has been shown on the output and is
  not recorded.
\<close>

definition report_match :: "env \<Rightarrow> config \<Rightarrow> state \<Rightarrow> scan_path \<Rightarrow> state \<times> exn option" where
  "report_match E cfg s p =
     (let s1 = s\<lparr>trace := trace s @ [Out_status_report (path p) (response p)]\<rparr>;
          pushed = (if (case redirect (response p) of None \<Rightarrow> False | Some r \<Rightarrow> r \<noteq> [])
                    then add_redirect_directory E cfg s1 p
                    else Inr (add_directory cfg s1 (path p)))
      in case pushed of
           Inl e \<Rightarrow> (s1, Some e)
         | Inr r \<Rightarrow>
             ((snd r)\<lparr>trace := trace (snd r) @
                [RM_add_path (currentDirectory (snd r) @ path p) (status p) (response p),
                 RM_save]\<rparr>, None))"

text \<open>
  \<^verbatim>\<open>Controller.match_callback\<close>, lines 332-358. The result is the state the call leaves
  and the exception it raises, if any (the increment of \<^verbatim>\<open>index\<close> happens before).
\<close>

definition match_callback :: "env \<Rightarrow> config \<Rightarrow> state \<Rightarrow> scan_path \<Rightarrow> state \<times> exn option" where
  "match_callback E cfg s p =
     (let s1 = s\<lparr>index := index s + 1\<rparr> in
      case status p of
        None \<Rightarrow> (s1, None)
      | Some st \<Rightarrow>
          if passes_status_checks cfg st p then
            (case scan_texts E (excludeTexts cfg) (body (response p)) of
               Inl e \<Rightarrow> (s1, Some e)
             | Inr found \<Rightarrow>
                 if found then (s1, None)
                 else
                   (case scan_regexps E (excludeRegexps cfg) (body (response p)) of
                      Inl e \<Rightarrow> (s1, Some e)
                    | Inr matched \<Rightarrow>
                        if matched then (s1, None) else report_match E cfg s1 p))
          else (s1, None))"

text \<open>\<^verbatim>\<open>Controller.not_found_callback\<close>, lines 360-363.\<close>

definition not_found_callback :: "env \<Rightarrow> state \<Rightarrow> string \<Rightarrow> state" where
  "not_found_callback E s p =
     (let s1 = s\<lparr>index := index s + 1\<rparr>
      in s1\<lparr>trace := trace s1 @ [Out_lastPath p (index s1) (dictionary_len E)]\<rparr>)"

text \<open>\<^verbatim>\<open>Controller.error_callback\<close>, lines 365-367.\<close>

definition error_callback :: "state \<Rightarrow> string \<Rightarrow> string \<Rightarrow> state" where
  "error_callback s p errorMsg = s\<lparr>trace := trace s @ [Out_add_connection_error]\<rparr>"

text \<open>\<^verbatim>\<open>Controller.append_error_log\<close>, lines 369-374.\<close>

definition append_error_log :: "env \<Rightarrow> state \<Rightarrow> string \<Rightarrow> string \<Rightarrow> state" where
  "append_error_log E s p errorMsg =
     (let line = strftime E ''[%y-%m-%d %H:%M:%S] - '';
          line = line @ currentUrl s @ '' - '' @ p @ '' - '' @ errorMsg
      in s\<lparr>trace := trace s @ [Log_write (linesep E @ line), Log_flush]\<rparr>)"

text \<open>
  \<^verbatim>\<open>errorCallbacks = [self.error_callback, self.append_error_log]\<close>, line 170: one failed
  request calls both, in this order.
\<close>

definition error_callbacks :: "env \<Rightarrow> state \<Rightarrow> string \<Rightarrow> string \<Rightarrow> state" where
  "error_callbacks E s p errorMsg = append_error_log E (error_callback s p errorMsg) p errorMsg"

subsection \<open>The classification as the specification words it\<close>










subsection \<open>Report setup\<close>

text \<open>
  What the outside world answers while one target is scanned. \<open>probe\<close> is the exception, if
  any, of building the \<^verbatim>\<open>Requester\<close> and requesting \<^verbatim>\<open>"/"\<close> (lines 135-144). The four
  \<open>requester_\<close> fields are the attributes of the requester. \<open>directoryPath\<close> and
  \<open>outputFile\<close> are the names that lines 271-293 of \<^verbatim>\<open>setup_reports\<close> arrive at from the
  clock and the file system, \<open>directory_exists\<close> is \<^verbatim>\<open>FileUtils.exists(directoryPath)\<close>
  once line 296 has tried to create it, \<open>directory_writable\<close> is
  \<^verbatim>\<open>FileUtils.can_write(directoryPath)\<close>. \<open>fuzz d\<close> is what the fuzzer does when started
  on the directory \<open>d\<close>: the callbacks it invokes, in order, and the exception that ends
  \<^verbatim>\<open>process_paths\<close>, if any (a \<^verbatim>\<open>RequestException\<close> of the fuzzer, or the
  \<^verbatim>\<open>SkipTargetInterrupt\<close> or \<^verbatim>\<open>KeyboardInterrupt\<close> that \<^verbatim>\<open>handle_interrupt\<close> raises on the
  operator's command).
\<close>

datatype callback = Match scan_path | NotFound string | Failed string string

record target_env =
  probe :: "exn option"
  requester_basePath :: string
  requester_host :: string
  requester_port :: int
  requester_protocol :: string
  directoryPath :: string
  outputFile :: string
  directory_exists :: bool
  directory_writable :: bool
  fuzz :: "string \<Rightarrow> callback list \<times> exn option"

text \<open>
  Lines 302-312: the variable \<^verbatim>\<open>report\<close> is assigned \<^verbatim>\<open>None\<close>, then by the \<^verbatim>\<open>if\<close> on
  \<^verbatim>\<open>'simple'\<close>, then by the \<^verbatim>\<open>if\<close>/\<^verbatim>\<open>else\<close> on \<^verbatim>\<open>'json'\<close>.
\<close>

definition autosave_report :: "config \<Rightarrow> target_env \<Rightarrow> report option" where
  "autosave_report cfg T =
     (let report = None;
          report = (if autoSaveFormat cfg = ''simple''
                    then Some (SimpleReport (requester_host T) (requester_port T)
                                 (requester_protocol T) (requester_basePath T) (outputFile T))
                    else report);
          report = (if autoSaveFormat cfg = ''json''
                    then Some (JSONReport (requester_host T) (requester_port T)
                                 (requester_protocol T) (requester_basePath T) (outputFile T))
                    else Some (PlainTextReport (requester_host T) (requester_port T)
                                 (requester_protocol T) (requester_basePath T) (outputFile T)))
      in report)"

text \<open>Lines 320-330: one more sink for each output file named on the command line.\<close>

definition explicit_reports :: "config \<Rightarrow> target_env \<Rightarrow> report list" where
  "explicit_reports cfg T =
     (case simpleOutputFile cfg of None \<Rightarrow> []
      | Some f \<Rightarrow> [SimpleReport (requester_host T) (requester_port T)
                      (requester_protocol T) (requester_basePath T) f])
     @ (case plainTextOutputFile cfg of None \<Rightarrow> []
        | Some f \<Rightarrow> [PlainTextReport (requester_host T) (requester_port T)
                        (requester_protocol T) (requester_basePath T) f])
     @ (case jsonOutputFile cfg of None \<Rightarrow> []
        | Some f \<Rightarrow> [JSONReport (requester_host T) (requester_port T)
                        (requester_protocol T) (requester_basePath T) f])"

definition add_outputs :: "report option list \<Rightarrow> state \<Rightarrow> state" where
  "add_outputs rs s = s\<lparr>trace := trace s @ map RM_add_output (List.map_filter id rs)\<rparr>"

text \<open>
  \<^verbatim>\<open>Controller.setup_reports\<close>, lines 269-330, from line 295 on; \<^verbatim>\<open>sys.exit(1)\<close> raises
  \<^verbatim>\<open>SystemExit\<close>. \<^verbatim>\<open>add_output(None)\<close> cannot happen: line 307 always assigns a report.
\<close>

definition setup_reports :: "config \<Rightarrow> target_env \<Rightarrow> state \<Rightarrow> state \<times> exn option" where
  "setup_reports cfg T s =
     (if autoSave cfg then
        (if \<not> directory_exists T
         then (s\<lparr>trace := trace s @
                  [Out_error (''Couldn't create reports folder '' @ directoryPath T)]\<rparr>,
               Some (SystemExit 1))
         else if directory_writable T
         then (add_outputs (autosave_report cfg T # map Some (explicit_reports cfg T)) s, None)
         else (s\<lparr>trace := trace s @
                  [Out_error (''Can't write reports to '' @ directoryPath T)]\<rparr>,
               Some (SystemExit 1)))
      else (add_outputs (map Some (explicit_reports cfg T)) s, None))"

subsection \<open>The scan of one target\<close>

text \<open>
  The fuzzer calls the callbacks from its worker threads; an exception of
  \<open>match_callback\<close> ends that call and stays in its thread.
\<close>

fun run_callback :: "env \<Rightarrow> config \<Rightarrow> state \<Rightarrow> callback \<Rightarrow> state" where
  "run_callback E cfg s (Match p) = fst (match_callback E cfg s p)"
| "run_callback E cfg s (NotFound p) = not_found_callback E s p"
| "run_callback E cfg s (Failed p errorMsg) = error_callbacks E s p errorMsg"

text \<open>
  \<^verbatim>\<open>Controller.wait\<close> with \<^verbatim>\<open>process_paths\<close>, lines 417-436: while the queue is not empty,
  take its head, start the fuzzer on it and let the callbacks run. The loop need not end
  (each scan may push new directories), so the result is an option: \<open>None\<close> when the loop
  runs forever.
\<close>

partial_function (option) wait ::
  "env \<Rightarrow> config \<Rightarrow> (string \<Rightarrow> callback list \<times> exn option) \<Rightarrow> state
     \<Rightarrow> (state \<times> exn option) option" where
  "wait E cfg fz s =
     (case directories s of
        [] \<Rightarrow> Some (s, None)
      | d # ds \<Rightarrow>
          (let s1 = s\<lparr>index := 0, currentDirectory := d, directories := ds\<rparr>;
               s2 = s1\<lparr>trace := trace s1 @
                      [Out_warning (''['' @ strftime E ''%H:%M:%S'' @ ''] Starting: '' @ d),
                       Fuzzer_start (basePath s1 @ d)]\<rparr>;
               s3 = foldl (run_callback E cfg) s2 (fst (fz d))
           in case snd (fz d) of
                Some e \<Rightarrow> Some (s3, Some e)
              | None \<Rightarrow> wait E cfg fz s3))"

declare wait.simps [code]

text \<open>
  \<^verbatim>\<open>try: ... except RequestException as e: self.output.error(...); raise SkipTargetInterrupt\<close>,
  lines 146-148 and 177-179, applied to the outcome of the guarded block.
\<close>

definition except_RequestException ::
  "string \<Rightarrow> state \<times> exn option \<Rightarrow> state \<times> exn option" where
  "except_RequestException intro r =
     (case snd r of
        Some (RequestException message) \<Rightarrow>
          ((fst r)\<lparr>trace := trace (fst r) @ [Out_error (intro @ message)]\<rparr>,
           Some SkipTargetInterrupt)
      | _ \<Rightarrow> r)"

text \<open>Lines 129-132: a new report manager and the current URL.\<close>

definition start_target :: "string \<Rightarrow> state \<Rightarrow> state" where
  "start_target url s =
     s\<lparr>has_reportManager := True, currentUrl := url,
       trace := trace s @ [RM_new, Out_target url]\<rparr>"

text \<open>Lines 159-164: the queue is seeded with the scan subdirectories or with \<^verbatim>\<open>''\<close>.\<close>

definition seed_directories :: "config \<Rightarrow> state \<Rightarrow> state" where
  "seed_directories cfg s =
     (case scanSubdirs cfg of
        Some subdirs \<Rightarrow> s\<lparr>directories := directories s @ subdirs\<rparr>
      | None \<Rightarrow> s\<lparr>directories := directories s @ [[]]\<rparr>)"

text \<open>
  Lines 129-166, the body of the inner \<^verbatim>\<open>try\<close> up to the construction of the fuzzer:
  report manager and URL, the connectivity probe with its handler, the base path, the
  seeds and the report sinks. Lines 150-154 (random agents and headers) only configure the
  requester and touch no attribute of the controller.
\<close>

definition prepare_target :: "config \<Rightarrow> string \<times> target_env \<Rightarrow> state \<Rightarrow> state \<times> exn option" where
  "prepare_target cfg ut s =
     (let s1 = start_target (fst ut) s;
          probed = except_RequestException [] (s1, probe (snd ut))
      in case snd probed of
           Some e \<Rightarrow> probed
         | None \<Rightarrow>
             setup_reports cfg (snd ut)
               (seed_directories cfg (s1\<lparr>basePath := requester_basePath (snd ut)\<rparr>)))"

text \<open>The body of the inner \<^verbatim>\<open>try\<close>, lines 129-179: the preparation, then \<^verbatim>\<open>wait\<close>.\<close>

definition target_body ::
  "env \<Rightarrow> config \<Rightarrow> string \<times> target_env \<Rightarrow> state \<Rightarrow> (state \<times> exn option) option" where
  "target_body E cfg ut s =
     (let prepared = prepare_target cfg ut s
      in case snd prepared of
           Some e \<Rightarrow> Some prepared
         | None \<Rightarrow>
             map_option (except_RequestException ''Fatal error during site scanning: '')
               (wait E cfg (fuzz (snd ut)) (fst prepared)))"

text \<open>
  The inner \<^verbatim>\<open>try\<close> statement, lines 128-185: \<^verbatim>\<open>except SkipTargetInterrupt: continue\<close>
  swallows that exception, and \<^verbatim>\<open>finally\<close> saves the report manager on every way out.
\<close>

definition run_target ::
  "env \<Rightarrow> config \<Rightarrow> string \<times> target_env \<Rightarrow> state \<Rightarrow> (state \<times> exn option) option" where
  "run_target E cfg ut s =
     (case target_body E cfg ut s of
        None \<Rightarrow> None
      | Some r \<Rightarrow>
          Some ((fst r)\<lparr>trace := trace (fst r) @ [RM_save]\<rparr>,
                if snd r = Some SkipTargetInterrupt then None else snd r))"

text \<open>
  \<^verbatim>\<open>for url in self.arguments.urlList\<close>, line 126, each URL paired with what the outside
  world does during its scan. An exception that leaves a target ends the loop.
\<close>

fun run_targets ::
  "env \<Rightarrow> config \<Rightarrow> (string \<times> target_env) list \<Rightarrow> state \<Rightarrow> (state \<times> exn option) option" where
  "run_targets E cfg [] s = Some (s, None)"
| "run_targets E cfg (ut # rest) s =
     (case run_target E cfg ut s of
        None \<Rightarrow> None
      | Some r \<Rightarrow> (case snd r of Some e \<Rightarrow> Some r | None \<Rightarrow> run_targets E cfg rest (fst r)))"

text \<open>
  The outer \<^verbatim>\<open>try\<close> statement, lines 125-197. \<^verbatim>\<open>exit(0)\<close> in the handler raises
  \<^verbatim>\<open>SystemExit\<close>; the \<^verbatim>\<open>finally\<close> block runs on every way out, and its
  \<^verbatim>\<open>self.reportManager.close()\<close> raises \<^verbatim>\<open>AttributeError\<close> when no target ever assigned
  the attribute.
\<close>

definition controller_run ::
  "env \<Rightarrow> config \<Rightarrow> (string \<times> target_env) list \<Rightarrow> state \<Rightarrow> (state \<times> exn option) option" where
  "controller_run E cfg targets s =
     (case run_targets E cfg targets s of
        None \<Rightarrow> None
      | Some r \<Rightarrow>
          (let handled =
                 (if snd r = Some KeyboardInterrupt
                  then ((fst r)\<lparr>trace := trace (fst r) @
                           [Out_error (CHR 0x0A # ''Canceled by the user'')]\<rparr>,
                        Some (SystemExit 0))
                  else r);
               s1 = fst handled;
               s2 = (if \<not> errorLog_closed s1
                     then s1\<lparr>errorLog_closed := True, trace := trace s1 @ [Log_close]\<rparr>
                     else s1)
           in if \<not> has_reportManager s2 then Some (s2, Some AttributeError)
              else
                (let s3 = s2\<lparr>trace := trace s2 @ [RM_close]\<rparr>
                 in case snd handled of
                      Some e \<Rightarrow> Some (s3, Some e)
                    | None \<Rightarrow>
                        Some (s3\<lparr>trace := trace s3 @
                                  [Out_warning (CHR 0x0A # ''Task Completed'')]\<rparr>, None))))"

text \<open>The attributes as lines 55-116 leave them: empty queue and done-set, open error log.\<close>

definition initial_state :: state where
  "initial_state = \<lparr>index = 0, currentUrl = [], currentDirectory = [], basePath = [],
     directories = [], doneDirs = [], has_reportManager = False, errorLog_closed = False,
     trace = []\<rparr>"

subsection \<open>Sample targets\<close>

definition found_200 :: "string \<Rightarrow> scan_path" where
  "found_200 p = \<lparr>path = p, status = Some 200, response = \<lparr>body = ''ok'', redirect = None\<rparr>\<rparr>"

text \<open>A server with the directory \<open>backup/\<close> at its root.\<close>

definition sample_target :: target_env where
  "sample_target = \<lparr>probe = None, requester_basePath = ''/'', requester_host = ''h'',
     requester_port = 80, requester_protocol = ''http'', directoryPath = ''reports/h'',
     outputFile = ''reports/h/out'', directory_exists = True, directory_writable = True,
     fuzz = (\<lambda>d. if d = [] then ([Match (found_200 ''backup/''), NotFound ''x''], None)
                 else ([NotFound ''x''], None))\<rparr>"

definition unreachable_target :: target_env where
  "unreachable_target = sample_target\<lparr>probe := Some (RequestException ''refused'')\<rparr>"

definition failing_target :: target_env where
  "failing_target = sample_target
     \<lparr>fuzz := (\<lambda>d. ([NotFound ''x''], Some (RequestException ''reset'')))\<rparr>"

definition skipped_target :: target_env where
  "skipped_target = sample_target\<lparr>fuzz := (\<lambda>d. ([NotFound ''x''], Some SkipTargetInterrupt))\<rparr>"

subsection \<open>Auxiliary notion for the proofs\<close>

text \<open>
  A step that may extend the trace, but neither creates nor closes a report manager, nor
  closes the error log.
\<close>

definition quiet_step :: "state \<Rightarrow> state \<Rightarrow> bool" where
  "quiet_step s s' =
     ((\<exists>new. trace s' = trace s @ new
             \<and> Log_close \<notin> set new \<and> RM_new \<notin> set new \<and> RM_close \<notin> set new)
      \<and> errorLog_closed s' = errorLog_closed s
      \<and> has_reportManager s' = has_reportManager s)"

text \<open>Two targets that both have the directory \<open>backup/\<close>.\<close>

definition two_targets :: "(string \<times> target_env) list" where
  "two_targets = [(''http://a/'', sample_target), (''http://b/'', sample_target)]"

text \<open>The target headers and fuzzer starts of a trace.\<close>

definition scans_of :: "event list \<Rightarrow> event list" where
  "scans_of evs =
     filter (\<lambda>e. case e of Fuzzer_start d \<Rightarrow> True | Out_target u \<Rightarrow> True | _ \<Rightarrow> False) evs"

text \<open>Automatic saving in the format \<open>simple\<close>; a reports directory that cannot be written.\<close>

definition autosave_simple_config :: config where
  "autosave_simple_config = sample_config\<lparr>autoSave := True, autoSaveFormat := ''simple''\<rparr>"

definition readonly_target :: target_env where
  "readonly_target = sample_target\<lparr>directory_writable := False\<rparr>"

text \<open>Scan subdirectories given by the caller: an excluded one, a deep one and \<open>backup/\<close>.\<close>

definition seeded_config :: config where
  "seeded_config = sample_config\<lparr>scanSubdirs := Some [[], ''admin/'', ''a/b/c/d/'', ''backup/'']\<rparr>"

text \<open>
  The steps of one target: a new report manager first, then only quiet events.
\<close>

definition target_step :: "state \<Rightarrow> state \<Rightarrow> bool" where
  "target_step s s' =
     ((\<exists>mid. trace s' = trace s @ RM_new # mid
             \<and> Log_close \<notin> set mid \<and> RM_new \<notin> set mid \<and> RM_close \<notin> set mid)
      \<and> errorLog_closed s' = errorLog_closed s
      \<and> has_reportManager s')"

text \<open>A run in which the first three targets fail, each in its own way.\<close>

definition four_targets :: "(string \<times> target_env) list" where
  "four_targets = [(''http://a/'', unreachable_target), (''http://b/'', failing_target),
                   (''http://c/'', skipped_target), (''http://d/'', sample_target)]"

text \<open>The states of the run over \<open>four_targets\<close>, as the definitions compute them.\<close>

definition failing_wait_state :: state where
  "failing_wait_state = initial_state
     \<lparr>index := 1, currentUrl := ''http://b/'', basePath := ''/'', has_reportManager := True,
      trace := [RM_new, Out_target ''http://b/'', Out_warning ''[%H:%M:%S] Starting: '',
                Fuzzer_start ''/'', Out_lastPath ''x'' 1 2]\<rparr>"

definition skipped_wait_state :: state where
  "skipped_wait_state = initial_state
     \<lparr>index := 1, currentUrl := ''http://c/'', basePath := ''/'', has_reportManager := True,
      trace := [RM_new, Out_target ''http://c/'', Out_warning ''[%H:%M:%S] Starting: '',
                Fuzzer_start ''/'', Out_lastPath ''x'' 1 2]\<rparr>"

definition unreachable_end_state :: state where
  "unreachable_end_state = initial_state
     \<lparr>currentUrl := ''http://a/'', has_reportManager := True,
      trace := [RM_new, Out_target ''http://a/'', Out_error ''refused'', RM_save]\<rparr>"

definition four_targets_final :: state where
  "four_targets_final = initial_state
     \<lparr>index := 1, currentUrl := ''http://d/'', currentDirectory := ''backup/'',
      basePath := ''/'', doneDirs := [''backup/''], has_reportManager := True,
      errorLog_closed := True,
      trace :=
        [RM_new, Out_target ''http://a/'', Out_error ''refused'', RM_save,
         RM_new, Out_target ''http://b/'', Out_warning ''[%H:%M:%S] Starting: '',
         Fuzzer_start ''/'', Out_lastPath ''x'' 1 2,
         Out_error ''Fatal error during site scanning: reset'', RM_save,
         RM_new, Out_target ''http://c/'', Out_warning ''[%H:%M:%S] Starting: '',
         Fuzzer_start ''/'', Out_lastPath ''x'' 1 2, RM_save,
         RM_new, Out_target ''http://d/'', Out_warning ''[%H:%M:%S] Starting: '',
         Fuzzer_start ''/'',
         Out_status_report ''backup/'' \<lparr>body = ''ok'', redirect = None\<rparr>,
         RM_add_path ''backup/'' (Some 200) \<lparr>body = ''ok'', redirect = None\<rparr>,
         RM_save, Out_lastPath ''x'' 2 2, Out_warning ''[%H:%M:%S] Starting: backup/'',
         Fuzzer_start ''/backup/'', Out_lastPath ''x'' 1 2, RM_save,
         Log_close, RM_close, Out_warning (CHR 0x0A # ''Task Completed'')]\<rparr>"

section \<open>Properties\<close>

subsection \<open>Resolved URLs of the sample redirects\<close>

lemma urljoin_std_b: "urljoin_std ''http://h/a/'' ''b/'' = Some ''http://h/a/b/''"
  by code_simp

lemma urljoin_std_bcd: "urljoin_std ''http://h/a/'' ''b/c/d/'' = Some ''http://h/a/b/c/d/''"
  by code_simp

lemma urljoin_std_up: "urljoin_std ''http://h/a/'' ''../'' = Some ''http://h/''"
  by code_simp

lemma urljoin_std_a: "urljoin_std ''http://h/a/'' ''a/'' = Some ''http://h/a/a/''"
  by code_simp

lemma urljoin_std_admin: "urljoin_std ''http://h/'' ''admin/'' = Some ''http://h/admin/''"
  by code_simp

lemma urljoin_std_bracket: "urljoin_std ''http://h/a/'' ''//['' = None"
  by code_simp

lemma sample_baseUrl: "redirect_baseUrl (sample_state cur) = ''http://h/'' @ cur"
  by (simp add: redirect_baseUrl_def sample_state_def rstrip_def)

lemma sample_absoluteUrl_a:
  "redirect_absoluteUrl std_env (sample_state ''a/'') (redirected p ''b/'') = Some ''http://h/a/b/''"
  "redirect_absoluteUrl std_env (sample_state ''a/'') (redirected p ''b/c/d/'')
     = Some ''http://h/a/b/c/d/''"
  "redirect_absoluteUrl std_env (sample_state ''a/'') (redirected p ''../'') = Some ''http://h/''"
  "redirect_absoluteUrl std_env (sample_state ''a/'') (redirected p ''a/'') = Some ''http://h/a/a/''"
  "redirect_absoluteUrl std_env (sample_state ''a/'') (redirected p ''//['') = None"
  by (simp_all add: redirect_absoluteUrl_def sample_baseUrl std_env_def redirected_def
      urljoin_std_b urljoin_std_bcd urljoin_std_up urljoin_std_a urljoin_std_bracket)

lemma sample_fields:
  "currentDirectory (sample_state cur) = cur" "doneDirs (sample_state cur) = []"
  "directories (sample_state cur) = []" "recursive sample_config"
  "recursive_level_max sample_config = 2" "excludeSubdirs sample_config = [''admin'']"
  by (simp_all add: sample_state_def sample_config_def)

subsection \<open>Depth bound of the frontier\<close>

lemma add_directory_True:
  "add_directory cfg s p = (True, s') \<Longrightarrow>
     s' = s\<lparr>directories := directories s @ [currentDirectory s @ p],
            doneDirs := doneDirs s @ [currentDirectory s @ p]\<rparr>
     \<and> count_slash (currentDirectory s @ p) \<le> recursive_level_max cfg"
  by (auto simp: add_directory_def Let_def split: if_splits)

lemma add_redirect_directory_resolved:
  "redirect_absoluteUrl E s p = Some u \<Longrightarrow>
   add_redirect_directory E cfg s p =
     Inr (if recursive cfg
             \<and> startswith u (redirect_baseUrl s) \<and> u \<noteq> redirect_baseUrl s \<and> endswith u ''/''
             \<and> redirect_dir s u \<notin> set (doneDirs s)
             \<and> count_slash (redirect_dir s u) \<le> recursive_level_max cfg
          then (True, s\<lparr>directories := directories s @ [redirect_dir s u],
                         doneDirs := doneDirs s @ [redirect_dir s u]\<rparr>)
          else (False, s))"
  by (simp add: add_redirect_directory_def Let_def)

lemma add_redirect_directory_raises:
  "redirect_absoluteUrl E s p = None \<Longrightarrow>
   add_redirect_directory E cfg s p = (if recursive cfg then Inl ValueError else Inr (False, s))"
  by (simp add: add_redirect_directory_def)

lemma add_redirect_directory_True:
  assumes "add_redirect_directory E cfg s p = Inr (True, s')"
  shows "\<exists>u. redirect_absoluteUrl E s p = Some u
           \<and> s' = s\<lparr>directories := directories s @ [redirect_dir s u],
                    doneDirs := doneDirs s @ [redirect_dir s u]\<rparr>
           \<and> count_slash (redirect_dir s u) \<le> recursive_level_max cfg"
proof (cases "redirect_absoluteUrl E s p")
  case None
  with assms show ?thesis
    by (simp add: add_redirect_directory_raises split: if_splits)
next
  case (Some u)
  with assms show ?thesis
    by (simp add: add_redirect_directory_resolved split: if_splits)
qed

text \<open>
  C1: an entry that a push accepts, from \<open>add_directory\<close> (the entry is
  \<open>currentDirectory @ candidate\<close>) or from \<open>add_redirect_directory\<close> (the entry is the
  resolved URL without the base prefix), has at most \<open>recursive_level_max\<close> slashes; a
  candidate whose entry has more is rejected and the state (queue and done-set) is
  unchanged. A redirect whose resolution raises is not accepted either: the call raises
  (or returns false when recursion is disabled) before any assignment.
\<close>

theorem frontier_push_depth_bound:
  "(add_directory cfg s p = (True, s') \<longrightarrow>
      directories s' = directories s @ [currentDirectory s @ p]
      \<and> doneDirs s' = doneDirs s @ [currentDirectory s @ p]
      \<and> count_slash (currentDirectory s @ p) \<le> recursive_level_max cfg)
   \<and> (add_redirect_directory E cfg s r = Inr (True, t') \<longrightarrow>
      (\<exists>u. redirect_absoluteUrl E s r = Some u
          \<and> directories t' = directories s @ [redirect_dir s u]
          \<and> doneDirs t' = doneDirs s @ [redirect_dir s u]
          \<and> count_slash (redirect_dir s u) \<le> recursive_level_max cfg))
   \<and> (recursive_level_max cfg < count_slash (currentDirectory s @ q) \<longrightarrow>
      add_directory cfg s q = (False, s))
   \<and> (redirect_absoluteUrl E s r' = Some u'
        \<and> recursive_level_max cfg < count_slash (redirect_dir s u') \<longrightarrow>
      add_redirect_directory E cfg s r' = Inr (False, s))
   \<and> (redirect_absoluteUrl E s r'' = None \<longrightarrow>
      add_redirect_directory E cfg s r''
        = (if recursive cfg then Inl ValueError else Inr (False, s)))"
proof (intro conjI impI)
  assume a: "add_directory cfg s p = (True, s')"
  from add_directory_True [OF a]
  show "directories s' = directories s @ [currentDirectory s @ p]"
    and "doneDirs s' = doneDirs s @ [currentDirectory s @ p]"
    and "count_slash (currentDirectory s @ p) \<le> recursive_level_max cfg"
    by simp_all
next
  assume a: "add_redirect_directory E cfg s r = Inr (True, t')"
  from add_redirect_directory_True [OF a]
  show "\<exists>u. redirect_absoluteUrl E s r = Some u
          \<and> directories t' = directories s @ [redirect_dir s u]
          \<and> doneDirs t' = doneDirs s @ [redirect_dir s u]
          \<and> count_slash (redirect_dir s u) \<le> recursive_level_max cfg"
    by auto
next
  assume "recursive_level_max cfg < count_slash (currentDirectory s @ q)"
  then show "add_directory cfg s q = (False, s)"
    by (simp add: add_directory_def Let_def)
next
  assume "redirect_absoluteUrl E s r' = Some u'
        \<and> recursive_level_max cfg < count_slash (redirect_dir s u')"
  then show "add_redirect_directory E cfg s r' = Inr (False, s)"
    by (simp add: add_redirect_directory_resolved)
next
  assume "redirect_absoluteUrl E s r'' = None"
  then show "add_redirect_directory E cfg s r''
        = (if recursive cfg then Inl ValueError else Inr (False, s))"
    by (rule add_redirect_directory_raises)
qed

theorem frontier_push_depth_bound_witness:
  "add_directory sample_config (sample_state ''a/'') ''b/''
     = (True, (sample_state ''a/'')\<lparr>directories := [''a/b/''], doneDirs := [''a/b/'']\<rparr>)
   \<and> count_slash ''a/b/'' \<le> recursive_level_max sample_config
   \<and> add_redirect_directory std_env sample_config (sample_state ''a/'') (redirected ''b'' ''b/'')
     = Inr (True, (sample_state ''a/'')\<lparr>directories := [''b/''], doneDirs := [''b/'']\<rparr>)
   \<and> count_slash (redirect_dir (sample_state ''a/'') ''http://h/a/b/'')
       \<le> recursive_level_max sample_config
   \<and> recursive_level_max sample_config < count_slash (''a/'' @ ''b/c/'')
   \<and> add_directory sample_config (sample_state ''a/'') ''b/c/'' = (False, sample_state ''a/'')
   \<and> redirect_absoluteUrl std_env (sample_state ''a/'') (redirected ''b/c/d'' ''b/c/d/'')
       = Some ''http://h/a/b/c/d/''
   \<and> recursive_level_max sample_config
       < count_slash (redirect_dir (sample_state ''a/'') ''http://h/a/b/c/d/'')
   \<and> add_redirect_directory std_env sample_config (sample_state ''a/'')
        (redirected ''b/c/d'' ''b/c/d/'') = Inr (False, sample_state ''a/'')
   \<and> redirect_absoluteUrl std_env (sample_state ''a/'') (redirected ''x'' ''//['') = None
   \<and> add_redirect_directory std_env sample_config (sample_state ''a/'') (redirected ''x'' ''//['')
       = Inl ValueError"
proof -
  let ?s = "sample_state ''a/''"
  have h1: "add_directory sample_config ?s ''b/''
      = (True, ?s\<lparr>directories := [''a/b/''], doneDirs := [''a/b/'']\<rparr>)"
    by (simp add: Let_def add_directory_def sample_fields endswith_def suffix_to_prefix count_slash_def)
  have h2: "add_redirect_directory std_env sample_config ?s (redirected ''b'' ''b/'')
      = Inr (True, ?s\<lparr>directories := [''b/''], doneDirs := [''b/'']\<rparr>)"
    by (simp add: add_redirect_directory_resolved [OF sample_absoluteUrl_a(1)] redirect_dir_def
        sample_baseUrl sample_fields startswith_def endswith_def suffix_to_prefix count_slash_def)
  have h3: "recursive_level_max sample_config < count_slash (currentDirectory ?s @ ''b/c/'')"
    by (simp add: sample_fields count_slash_def)
  have h4: "redirect_absoluteUrl std_env ?s (redirected ''b/c/d'' ''b/c/d/'')
        = Some ''http://h/a/b/c/d/''
      \<and> recursive_level_max sample_config < count_slash (redirect_dir ?s ''http://h/a/b/c/d/'')"
    by (simp add: redirect_dir_def sample_absoluteUrl_a sample_baseUrl sample_fields count_slash_def)
  have h5: "redirect_absoluteUrl std_env ?s (redirected ''x'' ''//['') = None"
    by (rule sample_absoluteUrl_a)
  have d: "redirect_dir ?s ''http://h/a/b/'' = ''b/''"
    by (simp add: redirect_dir_def sample_baseUrl)
  from frontier_push_depth_bound [of sample_config ?s "''b/''" _ std_env "redirected ''b'' ''b/''" _
        "''b/c/''" "redirected ''b/c/d'' ''b/c/d/''" "''http://h/a/b/c/d/''"
        "redirected ''x'' ''//[''"] h1 h2 h3 h4 h5
  show ?thesis by (simp add: sample_fields d count_slash_def)
qed

subsection \<open>Redirect-driven expansion\<close>

lemma urljoin_std_abs_path: "urljoin_std ''http://h/a/'' ''/a/'' = Some ''http://h/a/''"
  by code_simp

lemma urljoin_std_abs_url: "urljoin_std ''http://h/a/'' ''http://h/a/'' = Some ''http://h/a/''"
  by code_simp

lemma sample_absoluteUrl_root:
  "redirect_absoluteUrl std_env (sample_state []) (redirected p ''admin/'')
     = Some ''http://h/admin/''"
  by (simp add: redirect_absoluteUrl_def sample_baseUrl std_env_def redirected_def urljoin_std_admin)

lemma startswith_drop: "startswith u b \<Longrightarrow> b @ drop (length b) u = u"
  by (auto simp: startswith_def prefix_def)

text \<open>
  C3, amended: \<open>add_redirect_directory\<close> computes the base as the current URL without its
  trailing slashes, plus a slash, plus the current directory, and resolves the redirect
  against it with \<open>urljoin\<close>. With recursion disabled it returns false without resolving.
  With recursion enabled, when the resolution raises, the call raises and nothing is
  pushed; when it succeeds, the call pushes (returns true) if and only if the resolved URL
  starts with the base, differs from it and ends with a slash, and the entry is neither in
  the done-set nor deeper than the limit. The pushed entry is the resolved URL without the
  base prefix; in every other case of a successful resolution the call returns false and
  the state is unchanged.
\<close>

theorem redirect_push_iff:
  "(\<not> recursive cfg' \<longrightarrow> add_redirect_directory E cfg' s p' = Inr (False, s))
   \<and> (recursive cfg \<and> redirect_absoluteUrl E s p = None \<longrightarrow>
        add_redirect_directory E cfg s p = Inl ValueError)
   \<and> (recursive cfg \<and> redirect_absoluteUrl E s q = Some u \<longrightarrow>
        ((add_redirect_directory E cfg s q
            = Inr (True, s\<lparr>directories := directories s @ [redirect_dir s u],
                             doneDirs := doneDirs s @ [redirect_dir s u]\<rparr>))
         \<longleftrightarrow> startswith u (redirect_baseUrl s) \<and> u \<noteq> redirect_baseUrl s \<and> endswith u ''/''
             \<and> redirect_dir s u \<notin> set (doneDirs s)
             \<and> count_slash (redirect_dir s u) \<le> recursive_level_max cfg)
        \<and> (startswith u (redirect_baseUrl s) \<longrightarrow> redirect_baseUrl s @ redirect_dir s u = u)
        \<and> (\<not> (startswith u (redirect_baseUrl s) \<and> u \<noteq> redirect_baseUrl s \<and> endswith u ''/''
                \<and> redirect_dir s u \<notin> set (doneDirs s)
                \<and> count_slash (redirect_dir s u) \<le> recursive_level_max cfg) \<longrightarrow>
            add_redirect_directory E cfg s q = Inr (False, s)))
   \<and> redirect_baseUrl s = rstrip (currentUrl s) ''/'' @ ''/'' @ currentDirectory s
   \<and> redirect_absoluteUrl E s q
        = urljoin E (redirect_baseUrl s) (case redirect (response q) of None \<Rightarrow> [] | Some r \<Rightarrow> r)"
proof (intro conjI impI)
  assume "\<not> recursive cfg'"
  then show "add_redirect_directory E cfg' s p' = Inr (False, s)"
    by (simp add: add_redirect_directory_def)
next
  assume "recursive cfg \<and> redirect_absoluteUrl E s p = None"
  then show "add_redirect_directory E cfg s p = Inl ValueError"
    by (simp add: add_redirect_directory_raises)
next
  assume a: "recursive cfg \<and> redirect_absoluteUrl E s q = Some u"
  then have r: "redirect_absoluteUrl E s q = Some u" and c: "recursive cfg"
    by simp_all
  show "(add_redirect_directory E cfg s q
            = Inr (True, s\<lparr>directories := directories s @ [redirect_dir s u],
                             doneDirs := doneDirs s @ [redirect_dir s u]\<rparr>))
         \<longleftrightarrow> startswith u (redirect_baseUrl s) \<and> u \<noteq> redirect_baseUrl s \<and> endswith u ''/''
             \<and> redirect_dir s u \<notin> set (doneDirs s)
             \<and> count_slash (redirect_dir s u) \<le> recursive_level_max cfg"
    using c by (simp add: add_redirect_directory_resolved [OF r])
  {
    assume "\<not> (startswith u (redirect_baseUrl s) \<and> u \<noteq> redirect_baseUrl s \<and> endswith u ''/''
                \<and> redirect_dir s u \<notin> set (doneDirs s)
                \<and> count_slash (redirect_dir s u) \<le> recursive_level_max cfg)"
    then show "add_redirect_directory E cfg s q = Inr (False, s)"
      by (simp add: add_redirect_directory_resolved [OF r])
  }
next
  assume "startswith u (redirect_baseUrl s)"
  then show "redirect_baseUrl s @ redirect_dir s u = u"
    by (simp add: redirect_dir_def startswith_drop)
next
  show "redirect_baseUrl s = rstrip (currentUrl s) ''/'' @ ''/'' @ currentDirectory s"
    by (simp add: redirect_baseUrl_def)
  show "redirect_absoluteUrl E s q
        = urljoin E (redirect_baseUrl s) (case redirect (response q) of None \<Rightarrow> [] | Some r \<Rightarrow> r)"
    by (simp add: redirect_absoluteUrl_def)
qed

text \<open>
  The theorem at the sample state: \<open>b/\<close> is pushed, \<open>../\<close> is not, \<open>//[\<close> raises, and with
  recursion disabled the call returns false.
\<close>

theorem redirect_push_iff_witness:
  "\<not> recursive (sample_config\<lparr>recursive := False\<rparr>)
   \<and> add_redirect_directory std_env (sample_config\<lparr>recursive := False\<rparr>) (sample_state ''a/'')
        (redirected ''x'' ''//['') = Inr (False, sample_state ''a/'')
   \<and> recursive sample_config
   \<and> redirect_absoluteUrl std_env (sample_state ''a/'') (redirected ''x'' ''//['') = None
   \<and> add_redirect_directory std_env sample_config (sample_state ''a/'') (redirected ''x'' ''//['')
       = Inl ValueError
   \<and> redirect_absoluteUrl std_env (sample_state ''a/'') (redirected ''b'' ''b/'')
       = Some ''http://h/a/b/''
   \<and> startswith ''http://h/a/b/'' (redirect_baseUrl (sample_state ''a/''))
   \<and> add_redirect_directory std_env sample_config (sample_state ''a/'') (redirected ''b'' ''b/'')
       = Inr (True, (sample_state ''a/'')\<lparr>directories := [''b/''], doneDirs := [''b/'']\<rparr>)
   \<and> redirect_baseUrl (sample_state ''a/'') @ ''b/'' = ''http://h/a/b/''
   \<and> redirect_absoluteUrl std_env (sample_state ''a/'') (redirected ''x'' ''../'')
       = Some ''http://h/''
   \<and> \<not> startswith ''http://h/'' (redirect_baseUrl (sample_state ''a/''))
   \<and> add_redirect_directory std_env sample_config (sample_state ''a/'') (redirected ''x'' ''../'')
       = Inr (False, sample_state ''a/'')"
proof -
  let ?s = "sample_state ''a/''"
  have d: "redirect_dir ?s ''http://h/a/b/'' = ''b/''"
    by (simp add: redirect_dir_def sample_baseUrl)
  have n: "\<not> recursive (sample_config\<lparr>recursive := False\<rparr>)"
    by simp
  have h0: "recursive sample_config \<and> redirect_absoluteUrl std_env ?s (redirected ''x'' ''//['') = None"
    by (simp add: sample_fields sample_absoluteUrl_a)
  have h1: "recursive sample_config
      \<and> redirect_absoluteUrl std_env ?s (redirected ''b'' ''b/'') = Some ''http://h/a/b/''"
    by (simp add: sample_fields sample_absoluteUrl_a)
  have c1: "startswith ''http://h/a/b/'' (redirect_baseUrl ?s)
      \<and> ''http://h/a/b/'' \<noteq> redirect_baseUrl ?s \<and> endswith ''http://h/a/b/'' ''/''
      \<and> redirect_dir ?s ''http://h/a/b/'' \<notin> set (doneDirs ?s)
      \<and> count_slash (redirect_dir ?s ''http://h/a/b/'') \<le> recursive_level_max sample_config"
    by (simp add: d sample_baseUrl sample_fields startswith_def endswith_def suffix_to_prefix
        count_slash_def)
  have h2: "recursive sample_config
      \<and> redirect_absoluteUrl std_env ?s (redirected ''x'' ''../'') = Some ''http://h/''"
    by (simp add: sample_fields sample_absoluteUrl_a)
  have c2: "\<not> startswith ''http://h/'' (redirect_baseUrl ?s)"
    by (simp add: sample_baseUrl startswith_def)
  from redirect_push_iff [of "sample_config\<lparr>recursive := False\<rparr>" std_env ?s
          "redirected ''x'' ''//[''" sample_config "redirected ''x'' ''//[''"
          "redirected ''b'' ''b/''" "''http://h/a/b/''"]
       redirect_push_iff [of "sample_config\<lparr>recursive := False\<rparr>" std_env ?s
          "redirected ''x'' ''//[''" sample_config "redirected ''x'' ''//[''"
          "redirected ''x'' ''../''" "''http://h/''"]
       n h0 h1 c1 h2 c2
  show ?thesis by (simp add: d sample_fields)
qed

text \<open>
  C3 as stated fails when recursion is disabled: the resolved URL passes the three tests,
  the entry is new and shallow, and still nothing is pushed.
\<close>

theorem redirect_push_iff_counterexample:
  "redirect_absoluteUrl std_env (sample_state ''a/'') (redirected ''b'' ''b/'')
     = Some ''http://h/a/b/''
   \<and> startswith ''http://h/a/b/'' (redirect_baseUrl (sample_state ''a/''))
   \<and> ''http://h/a/b/'' \<noteq> redirect_baseUrl (sample_state ''a/'')
   \<and> endswith ''http://h/a/b/'' ''/''
   \<and> redirect_dir (sample_state ''a/'') ''http://h/a/b/'' \<notin> set (doneDirs (sample_state ''a/''))
   \<and> count_slash (redirect_dir (sample_state ''a/'') ''http://h/a/b/'')
       \<le> recursive_level_max (sample_config\<lparr>recursive := False\<rparr>)
   \<and> add_redirect_directory std_env (sample_config\<lparr>recursive := False\<rparr>) (sample_state ''a/'')
        (redirected ''b'' ''b/'') = Inr (False, sample_state ''a/'')"
  by (simp add: add_redirect_directory_resolved [OF sample_absoluteUrl_a(1)] redirect_dir_def
      sample_absoluteUrl_a sample_baseUrl sample_fields startswith_def endswith_def
      suffix_to_prefix count_slash_def)

text \<open>
  C4: with \<open>admin\<close> among the excluded subdirectories, a redirect of the candidate
  \<open>admin\<close> to \<open>admin/\<close> is pushed by \<open>add_redirect_directory\<close>, which has no exclusion
  check, while \<open>add_directory\<close> rejects the same entry \<open>admin/\<close>.
\<close>

theorem redirect_exclusion_missing:
  "add_redirect_directory std_env sample_config (sample_state []) (redirected ''admin'' ''admin/'')
     = Inr (True, (sample_state [])\<lparr>directories := [''admin/''], doneDirs := [''admin/'']\<rparr>)
   \<and> ''admin/'' \<in> set (map (\<lambda>directory. directory @ ''/'') (excludeSubdirs sample_config))
   \<and> add_directory sample_config (sample_state []) ''admin/'' = (False, sample_state [])"
  by (simp add: add_redirect_directory_resolved [OF sample_absoluteUrl_root] add_directory_def
      redirect_dir_def sample_baseUrl sample_fields startswith_def endswith_def
      suffix_to_prefix count_slash_def)

text \<open>
  C6, amended: with current URL \<open>http://h/\<close>, current directory \<open>a/\<close>, recursion enabled,
  a depth limit of at least 1 and an empty done-set, the base is \<open>http://h/a/\<close>; the
  redirect target \<open>b/\<close> is accepted with entry \<open>b/\<close>; \<open>../\<close> is rejected; the relative
  target \<open>a/\<close> resolves to \<open>http://h/a/a/\<close> and is accepted with entry \<open>a/\<close>; the targets
  \<open>/a/\<close> and \<open>http://h/a/\<close>, which resolve to the base itself, are rejected.
\<close>

theorem redirect_examples:
  "recursive cfg \<Longrightarrow> 1 \<le> recursive_level_max cfg \<Longrightarrow> urljoin E = urljoin_std \<Longrightarrow>
   currentUrl s = ''http://h/'' \<Longrightarrow> currentDirectory s = ''a/'' \<Longrightarrow> doneDirs s = [] \<Longrightarrow>
   redirect_baseUrl s = ''http://h/a/''
   \<and> add_redirect_directory E cfg s (redirected c ''b/'')
       = Inr (True, s\<lparr>directories := directories s @ [''b/''], doneDirs := [''b/'']\<rparr>)
   \<and> add_redirect_directory E cfg s (redirected c ''../'') = Inr (False, s)
   \<and> add_redirect_directory E cfg s (redirected c ''a/'')
       = Inr (True, s\<lparr>directories := directories s @ [''a/''], doneDirs := [''a/'']\<rparr>)
   \<and> add_redirect_directory E cfg s (redirected c ''/a/'') = Inr (False, s)
   \<and> add_redirect_directory E cfg s (redirected c ''http://h/a/'') = Inr (False, s)"
  by (simp add: add_redirect_directory_def Let_def redirect_dir_def redirect_absoluteUrl_def
      redirect_baseUrl_def rstrip_def redirected_def urljoin_std_b urljoin_std_up urljoin_std_a
      urljoin_std_abs_path urljoin_std_abs_url startswith_def endswith_def suffix_to_prefix
      count_slash_def)

text \<open>The sample configuration and state satisfy the hypotheses.\<close>

theorem redirect_examples_witness:
  "redirect_baseUrl (sample_state ''a/'') = ''http://h/a/''
   \<and> add_redirect_directory std_env sample_config (sample_state ''a/'') (redirected ''b'' ''b/'')
       = Inr (True, (sample_state ''a/'')\<lparr>directories := [''b/''], doneDirs := [''b/'']\<rparr>)
   \<and> add_redirect_directory std_env sample_config (sample_state ''a/'') (redirected ''b'' ''../'')
       = Inr (False, sample_state ''a/'')
   \<and> add_redirect_directory std_env sample_config (sample_state ''a/'') (redirected ''b'' ''a/'')
       = Inr (True, (sample_state ''a/'')\<lparr>directories := [''a/''], doneDirs := [''a/'']\<rparr>)"
proof -
  have "recursive sample_config" "1 \<le> recursive_level_max sample_config"
    "urljoin std_env = urljoin_std" "currentUrl (sample_state ''a/'') = ''http://h/''"
    "currentDirectory (sample_state ''a/'') = ''a/''" "doneDirs (sample_state ''a/'') = []"
    by (simp_all add: sample_config_def sample_state_def std_env_def)
  from redirect_examples [OF this, of "''b''"] show ?thesis
    by (simp add: sample_fields)
qed

text \<open>C6 as stated fails: the redirect target \<open>a/\<close> is accepted, not rejected.\<close>

theorem redirect_self_counterexample:
  "add_redirect_directory std_env sample_config (sample_state ''a/'') (redirected ''a'' ''a/'')
     = Inr (True, (sample_state ''a/'')\<lparr>directories := [''a/''], doneDirs := [''a/'']\<rparr>)"
  by (simp add: add_redirect_directory_resolved [OF sample_absoluteUrl_a(4)] redirect_dir_def
      sample_baseUrl sample_fields startswith_def endswith_def suffix_to_prefix count_slash_def)

subsection \<open>Classification of a discovered result\<close>







lemma add_directory_frame:
  "trace (snd (add_directory cfg s p)) = trace s"
  "index (snd (add_directory cfg s p)) = index s"
  "currentDirectory (snd (add_directory cfg s p)) = currentDirectory s"
  by (simp_all add: add_directory_def Let_def)

lemma add_redirect_directory_frame:
  assumes "add_redirect_directory E cfg s p = Inr r"
  shows "trace (snd r) = trace s" "index (snd r) = index s"
    "currentDirectory (snd r) = currentDirectory s"
  using assms
  by (auto simp: add_redirect_directory_def Let_def split: if_splits option.splits)




lemma report_match_trace:
  "trace (fst (report_match E cfg s p)) = trace s @
     Out_status_report (path p) (response p)
     # (if snd (report_match E cfg s p) = None
        then [RM_add_path (currentDirectory s @ path p) (status p) (response p), RM_save]
        else [])"
proof (cases "add_redirect_directory E cfg
                (s\<lparr>trace := trace s @ [Out_status_report (path p) (response p)]\<rparr>) p")
  case (Inl e)
  then show ?thesis
    by (simp add: report_match_def Let_def add_directory_frame)
next
  case (Inr r)
  from add_redirect_directory_frame [OF Inr] Inr show ?thesis
    by (simp add: report_match_def Let_def add_directory_frame)
qed








lemma state_trace_neq: "trace a \<noteq> trace b \<Longrightarrow> a \<noteq> b"
  by auto




lemma sample_not_sublist: "\<not> sublist ''Not Found'' ''Forbidden''"
  by (simp add: sublist_code)





subsection \<open>Progress counter and error log\<close>

text \<open>
  C8, amended: every call of the not-found callback advances \<open>index\<close> by one. The two error
  callbacks leave \<open>index\<close> unchanged: \<open>error_callback\<close> counts a connection error on the
  output, and \<open>append_error_log\<close> writes one formatted line to the error log and flushes it.
\<close>

theorem callbacks_progress_counter:
  "index (not_found_callback E s p) = index s + 1
   \<and> index (error_callback s p errorMsg) = index s
   \<and> index (append_error_log E s p errorMsg) = index s
   \<and> index (error_callbacks E s p errorMsg) = index s
   \<and> trace (error_callbacks E s p errorMsg) = trace s @
       [Out_add_connection_error,
        Log_write (linesep E @ strftime E ''[%y-%m-%d %H:%M:%S] - '' @ currentUrl s
                   @ '' - '' @ p @ '' - '' @ errorMsg),
        Log_flush]"
  by (simp add: not_found_callback_def error_callback_def append_error_log_def
      error_callbacks_def Let_def)

text \<open>C8 as stated fails: after an error callback \<open>index\<close> is not one more than before.\<close>

theorem error_callback_counter_counterexample:
  "index (error_callback (sample_state []) ''x'' ''timed out'') \<noteq> index (sample_state []) + 1
   \<and> index (append_error_log std_env (sample_state []) ''x'' ''timed out'')
       \<noteq> index (sample_state []) + 1
   \<and> index (error_callbacks std_env (sample_state []) ''x'' ''timed out'') = 0"
  by (simp add: error_callback_def append_error_log_def error_callbacks_def Let_def
      sample_state_def)

subsection \<open>State kept from one target to the next\<close>

lemma setup_reports_doneDirs: "doneDirs (fst (setup_reports cfg T s)) = doneDirs s"
  by (simp add: setup_reports_def add_outputs_def)

lemma prepare_target_doneDirs: "doneDirs (fst (prepare_target cfg ut s)) = doneDirs s"
  by (simp add: prepare_target_def Let_def except_RequestException_def start_target_def
      setup_reports_doneDirs seed_directories_def split: option.splits exn.splits)

text \<open>
  C5: what the code does at the failing input. Nothing between the start of a target and
  its scan touches the done-set, and in a run over two targets that both have the
  directory \<open>backup/\<close> the first target's \<open>backup/\<close> is scanned, while the second target's is
  not: its push is rejected because \<open>backup/\<close> is still in the done-set.
\<close>

theorem done_set_survives_target_change:
  "doneDirs (fst (prepare_target cfg ut s)) = doneDirs s
   \<and> map_option (\<lambda>r. (scans_of (trace (fst r)), doneDirs (fst r), snd r))
        (controller_run std_env sample_config two_targets initial_state)
      = Some ([Out_target ''http://a/'', Fuzzer_start ''/'', Fuzzer_start ''/backup/'',
               Out_target ''http://b/'', Fuzzer_start ''/''], [''backup/''], None)"
proof
  show "doneDirs (fst (prepare_target cfg ut s)) = doneDirs s"
    by (rule prepare_target_doneDirs)
  show "map_option (\<lambda>r. (scans_of (trace (fst r)), doneDirs (fst r), snd r))
        (controller_run std_env sample_config two_targets initial_state)
      = Some ([Out_target ''http://a/'', Fuzzer_start ''/'', Fuzzer_start ''/backup/'',
               Out_target ''http://b/'', Fuzzer_start ''/''], [''backup/''], None)"
    by code_simp
qed

subsection \<open>The sink of automatic saving\<close>

text \<open>
  C10: with automatic saving in the format \<open>simple\<close>, the report chosen by lines 302-312
  is a plain-text report, and it is the sink that \<open>setup_reports\<close> attaches first; when the
  reports directory is missing or not writable, the call exits and attaches nothing.
\<close>

theorem autosave_simple_is_plain_text:
  "autoSave cfg \<Longrightarrow> autoSaveFormat cfg = ''simple'' \<Longrightarrow>
   autosave_report cfg T = Some (PlainTextReport (requester_host T) (requester_port T)
       (requester_protocol T) (requester_basePath T) (outputFile T))
   \<and> (directory_exists T \<and> directory_writable T \<longrightarrow>
        setup_reports cfg T s =
          (s\<lparr>trace := trace s @
               RM_add_output (PlainTextReport (requester_host T) (requester_port T)
                   (requester_protocol T) (requester_basePath T) (outputFile T))
               # map RM_add_output (explicit_reports cfg T)\<rparr>, None))
   \<and> (\<not> (directory_exists T' \<and> directory_writable T') \<longrightarrow>
        snd (setup_reports cfg T' s) = Some (SystemExit 1)
        \<and> (\<exists>message. trace (fst (setup_reports cfg T' s)) = trace s @ [Out_error message]))"
  by (simp add: autosave_report_def setup_reports_def add_outputs_def List.map_filter_simps
      List.map_filter_def comp_def)

theorem autosave_simple_is_plain_text_witness:
  "autoSave autosave_simple_config \<and> autoSaveFormat autosave_simple_config = ''simple''
   \<and> directory_exists sample_target \<and> directory_writable sample_target
   \<and> \<not> (directory_exists readonly_target \<and> directory_writable readonly_target)
   \<and> setup_reports autosave_simple_config sample_target initial_state
       = (initial_state\<lparr>trace :=
            [RM_add_output (PlainTextReport ''h'' 80 ''http'' ''/'' ''reports/h/out'')]\<rparr>, None)
   \<and> snd (setup_reports autosave_simple_config readonly_target initial_state)
       = Some (SystemExit 1)"
proof -
  have h: "autoSave autosave_simple_config" "autoSaveFormat autosave_simple_config = ''simple''"
    by (simp_all add: autosave_simple_config_def)
  have t: "directory_exists sample_target \<and> directory_writable sample_target"
    "\<not> (directory_exists readonly_target \<and> directory_writable readonly_target)"
    by (simp_all add: sample_target_def readonly_target_def)
  have e: "explicit_reports autosave_simple_config sample_target = []" "trace initial_state = []"
    by (simp_all add: explicit_reports_def autosave_simple_config_def sample_config_def
        initial_state_def)
  have r: "requester_host sample_target = ''h''" "requester_port sample_target = 80"
    "requester_protocol sample_target = ''http''" "requester_basePath sample_target = ''/''"
    "outputFile sample_target = ''reports/h/out''"
    by (simp_all add: sample_target_def)
  from autosave_simple_is_plain_text [OF h, of sample_target initial_state readonly_target] h t
  show ?thesis by (simp add: e r)
qed

subsection \<open>Seeding of the frontier\<close>

lemma count_list_member: "x \<in> set xs \<Longrightarrow> 1 \<le> count_list xs x"
  by (induction xs) auto

text \<open>
  C9: the seeds are appended to the queue as they are, whatever their depth and whether or
  not they are excluded subdirectories, and the done-set is left as it was. So when the
  scan of a directory \<open>c\<close> finds a candidate \<open>p\<close> whose entry \<open>c @ p\<close> is one of the seeds, the
  push is accepted although the entry is in the queue already, and the queue then holds it
  at least twice.
\<close>

theorem seeds_bypass_push_checks:
  "doneDirs (seed_directories cfg s) = doneDirs s
   \<and> directories (seed_directories cfg s)
       = directories s @ (case scanSubdirs cfg of Some subdirs \<Rightarrow> subdirs | None \<Rightarrow> [[]])
   \<and> (scanSubdirs cfg = Some subdirs \<and> c @ p \<in> set subdirs \<and> recursive cfg
        \<and> endswith p ''/'' \<and> p \<notin> set (map (\<lambda>directory. directory @ ''/'') (excludeSubdirs cfg))
        \<and> c @ p \<notin> set (doneDirs s) \<and> count_slash (c @ p) \<le> recursive_level_max cfg \<longrightarrow>
        fst (add_directory cfg ((seed_directories cfg s)\<lparr>currentDirectory := c\<rparr>) p)
        \<and> 2 \<le> count_list (directories
              (snd (add_directory cfg ((seed_directories cfg s)\<lparr>currentDirectory := c\<rparr>) p)))
              (c @ p))"
proof (intro conjI impI)
  show "doneDirs (seed_directories cfg s) = doneDirs s"
    by (simp add: seed_directories_def split: option.splits)
  show "directories (seed_directories cfg s)
       = directories s @ (case scanSubdirs cfg of Some subdirs \<Rightarrow> subdirs | None \<Rightarrow> [[]])"
    by (simp add: seed_directories_def split: option.splits)
next
  assume a: "scanSubdirs cfg = Some subdirs \<and> c @ p \<in> set subdirs \<and> recursive cfg
        \<and> endswith p ''/'' \<and> p \<notin> set (map (\<lambda>directory. directory @ ''/'') (excludeSubdirs cfg))
        \<and> c @ p \<notin> set (doneDirs s) \<and> count_slash (c @ p) \<le> recursive_level_max cfg"
  let ?s = "(seed_directories cfg s)\<lparr>currentDirectory := c\<rparr>"
  from a have r: "add_directory cfg ?s p
      = (True, ?s\<lparr>directories := directories s @ subdirs @ [c @ p],
                   doneDirs := doneDirs s @ [c @ p]\<rparr>)"
    by (simp add: add_directory_def Let_def seed_directories_def)
  from r show "fst (add_directory cfg ?s p)" by simp
  from a count_list_member [of "c @ p" subdirs] have "1 \<le> count_list subdirs (c @ p)"
    by blast
  with r show "2 \<le> count_list (directories (snd (add_directory cfg ?s p))) (c @ p)"
    by simp
qed

text \<open>
  At the sample: an excluded seed and a seed deeper than the limit are enqueued, the seed
  \<open>backup/\<close> is pushed again when the root scan finds it, and the run scans it twice.
\<close>

theorem seeds_bypass_push_checks_witness:
  "directories (seed_directories seeded_config initial_state)
     = [[], ''admin/'', ''a/b/c/d/'', ''backup/'']
   \<and> doneDirs (seed_directories seeded_config initial_state) = []
   \<and> ''admin/'' \<in> set (map (\<lambda>directory. directory @ ''/'') (excludeSubdirs seeded_config))
   \<and> recursive_level_max seeded_config < count_slash ''a/b/c/d/''
   \<and> fst (add_directory seeded_config
            ((seed_directories seeded_config initial_state)\<lparr>currentDirectory := []\<rparr>) ''backup/'')
   \<and> 2 \<le> count_list (directories (snd (add_directory seeded_config
            ((seed_directories seeded_config initial_state)\<lparr>currentDirectory := []\<rparr>) ''backup/'')))
          ''backup/''
   \<and> map_option (\<lambda>r. scans_of (trace (fst r)))
        (controller_run std_env seeded_config [(''http://a/'', sample_target)] initial_state)
      = Some [Out_target ''http://a/'', Fuzzer_start ''/'', Fuzzer_start ''/admin/'',
              Fuzzer_start ''/a/b/c/d/'', Fuzzer_start ''/backup/'', Fuzzer_start ''/backup/'']"
proof -
  have f: "scanSubdirs seeded_config = Some [[], ''admin/'', ''a/b/c/d/'', ''backup/'']"
    "recursive seeded_config" "recursive_level_max seeded_config = 2"
    "excludeSubdirs seeded_config = [''admin'']"
    "doneDirs initial_state = []" "directories initial_state = []"
    by (simp_all add: seeded_config_def sample_config_def initial_state_def)
  have h: "scanSubdirs seeded_config = Some [[], ''admin/'', ''a/b/c/d/'', ''backup/'']
        \<and> [] @ ''backup/'' \<in> set [[], ''admin/'', ''a/b/c/d/'', ''backup/''] \<and> recursive seeded_config
        \<and> endswith ''backup/'' ''/''
        \<and> ''backup/'' \<notin> set (map (\<lambda>directory. directory @ ''/'') (excludeSubdirs seeded_config))
        \<and> [] @ ''backup/'' \<notin> set (doneDirs initial_state)
        \<and> count_slash ([] @ ''backup/'') \<le> recursive_level_max seeded_config"
    by (simp add: f endswith_def suffix_to_prefix count_slash_def)
  have run: "map_option (\<lambda>r. scans_of (trace (fst r)))
        (controller_run std_env seeded_config [(''http://a/'', sample_target)] initial_state)
      = Some [Out_target ''http://a/'', Fuzzer_start ''/'', Fuzzer_start ''/admin/'',
              Fuzzer_start ''/a/b/c/d/'', Fuzzer_start ''/backup/'', Fuzzer_start ''/backup/'']"
    by code_simp
  from seeds_bypass_push_checks [of seeded_config initial_state
      "[[], ''admin/'', ''a/b/c/d/'', ''backup/'']" "[]" "''backup/''"] h run
  show ?thesis by (simp add: f count_slash_def)
qed

subsection \<open>Steps that leave the report manager and the error log alone\<close>

lemma quiet_step_refl: "quiet_step s s"
  by (simp add: quiet_step_def)

lemma quiet_step_trans: "quiet_step a b \<Longrightarrow> quiet_step b c \<Longrightarrow> quiet_step a c"
  by (auto simp: quiet_step_def)

lemma quiet_stepI:
  "trace s' = trace s @ new \<Longrightarrow> Log_close \<notin> set new \<Longrightarrow> RM_new \<notin> set new \<Longrightarrow>
   RM_close \<notin> set new \<Longrightarrow> errorLog_closed s' = errorLog_closed s \<Longrightarrow>
   has_reportManager s' = has_reportManager s \<Longrightarrow> quiet_step s s'"
  by (auto simp: quiet_step_def)

lemma add_directory_flags:
  "errorLog_closed (snd (add_directory cfg s p)) = errorLog_closed s"
  "has_reportManager (snd (add_directory cfg s p)) = has_reportManager s"
  by (simp_all add: add_directory_def Let_def)

lemma add_redirect_directory_flags:
  assumes "add_redirect_directory E cfg s p = Inr r"
  shows "errorLog_closed (snd r) = errorLog_closed s"
    "has_reportManager (snd r) = has_reportManager s"
  using assms
  by (auto simp: add_redirect_directory_def Let_def split: if_splits option.splits)

lemma report_match_flags:
  "errorLog_closed (fst (report_match E cfg s p)) = errorLog_closed s
   \<and> has_reportManager (fst (report_match E cfg s p)) = has_reportManager s"
proof (cases "add_redirect_directory E cfg
                (s\<lparr>trace := trace s @ [Out_status_report (path p) (response p)]\<rparr>) p")
  case (Inl e)
  then show ?thesis
    by (simp add: report_match_def Let_def add_directory_flags)
next
  case (Inr r)
  from add_redirect_directory_flags [OF Inr] Inr show ?thesis
    by (simp add: report_match_def Let_def add_directory_flags)
qed

lemma quiet_report_match: "quiet_step s (fst (report_match E cfg s p))"
  by (rule quiet_stepI [OF report_match_trace]) (simp_all add: report_match_flags)

lemma quiet_index: "quiet_step s (s\<lparr>index := i\<rparr>)"
  by (simp add: quiet_step_def)

lemma match_callback_result:
  "fst (match_callback E cfg s p) = s\<lparr>index := index s + 1\<rparr>
   \<or> fst (match_callback E cfg s p) = fst (report_match E cfg (s\<lparr>index := index s + 1\<rparr>) p)"
  by (simp add: match_callback_def Let_def split: option.splits sum.splits)

lemma quiet_match_callback: "quiet_step s (fst (match_callback E cfg s p))"
  using match_callback_result [of E cfg s p] quiet_index [of s "index s + 1"]
    quiet_report_match [of "s\<lparr>index := index s + 1\<rparr>" E cfg p]
  by (auto intro: quiet_step_trans)

lemma quiet_not_found_callback: "quiet_step s (not_found_callback E s p)"
  by (simp add: quiet_step_def not_found_callback_def Let_def)

lemma quiet_error_callbacks: "quiet_step s (error_callbacks E s p m)"
  by (simp add: quiet_step_def error_callbacks_def error_callback_def append_error_log_def)

lemma quiet_run_callback: "quiet_step s (run_callback E cfg s cb)"
  by (cases cb) (simp_all add: quiet_match_callback quiet_not_found_callback quiet_error_callbacks)

lemma quiet_callbacks: "quiet_step s (foldl (run_callback E cfg) s cbs)"
proof (induction cbs arbitrary: s)
  case Nil
  show ?case by (simp add: quiet_step_refl)
next
  case (Cons cb cbs)
  from quiet_step_trans [OF quiet_run_callback Cons.IH]
  show ?case by simp
qed

lemma quiet_start_directory:
  "quiet_step s (s\<lparr>index := 0, currentDirectory := d, directories := ds,
                   trace := trace s @ [Out_warning w, Fuzzer_start b]\<rparr>)"
  by (simp add: quiet_step_def)

lemma quiet_wait:
  assumes "wait E cfg fz s = Some r"
  shows "quiet_step s (fst r)"
proof (rule wait.raw_induct [where P = "\<lambda>E cfg fz s r. quiet_step s (fst r)", OF _ assms],
    goal_cases)
  case (1 wait' E cfg fz s r)
  show ?case
  proof (cases "directories s")
    case Nil
    with 1(2) show ?thesis by (auto simp: quiet_step_refl)
  next
    case (Cons d ds)
    let ?s2 = "s\<lparr>index := 0, currentDirectory := d, directories := ds,
                 trace := trace s @
                   [Out_warning (''['' @ strftime E ''%H:%M:%S'' @ ''] Starting: '' @ d),
                    Fuzzer_start (basePath s @ d)]\<rparr>"
    let ?s3 = "foldl (run_callback E cfg) ?s2 (fst (fz d))"
    have q3: "quiet_step s ?s3"
      by (rule quiet_step_trans [OF quiet_start_directory quiet_callbacks])
    show ?thesis
    proof (cases "snd (fz d)")
      case None
      with 1(2) Cons have "wait' E cfg fz ?s3 = Some r" by (simp add: Let_def)
      from 1(1) [OF this] q3 show ?thesis by (rule quiet_step_trans [rotated])
    next
      case (Some e)
      with 1(2) Cons have "r = (?s3, Some e)" by (simp add: Let_def)
      with q3 show ?thesis by simp
    qed
  qed
qed

lemma target_step_quiet: "target_step a b \<Longrightarrow> quiet_step b c \<Longrightarrow> target_step a c"
  by (auto simp: target_step_def quiet_step_def)

lemma target_step_start: "target_step s (start_target url s)"
  by (simp add: target_step_def start_target_def)

lemma quiet_setup_reports: "quiet_step s (fst (setup_reports cfg T s))"
  by (auto simp: quiet_step_def setup_reports_def add_outputs_def)

lemma quiet_seed_directories: "quiet_step s (seed_directories cfg s)"
  by (simp add: quiet_step_def seed_directories_def split: option.splits)

lemma quiet_basePath: "quiet_step s (s\<lparr>basePath := b\<rparr>)"
  by (simp add: quiet_step_def)

lemma quiet_except_RequestException:
  "quiet_step (fst r) (fst (except_RequestException intro r))"
  by (simp add: quiet_step_def except_RequestException_def split: option.splits exn.splits)

lemma quiet_except_pair: "quiet_step a (fst (except_RequestException intro (a, x)))"
  using quiet_except_RequestException [of "(a, x)" intro] by simp

lemma target_step_prepare: "target_step s (fst (prepare_target cfg ut s))"
proof (cases "snd (except_RequestException [] (start_target (fst ut) s, probe (snd ut)))")
  case None
  then have "fst (prepare_target cfg ut s) = fst (setup_reports cfg (snd ut)
      (seed_directories cfg ((start_target (fst ut) s)\<lparr>basePath := requester_basePath (snd ut)\<rparr>)))"
    by (simp add: prepare_target_def Let_def)
  moreover have "target_step s (fst (setup_reports cfg (snd ut)
      (seed_directories cfg ((start_target (fst ut) s)\<lparr>basePath := requester_basePath (snd ut)\<rparr>))))"
    by (intro target_step_quiet [OF _ quiet_setup_reports]
        target_step_quiet [OF _ quiet_seed_directories]
        target_step_quiet [OF _ quiet_basePath] target_step_start)
  ultimately show ?thesis by simp
next
  case (Some e)
  then have "fst (prepare_target cfg ut s)
      = fst (except_RequestException [] (start_target (fst ut) s, probe (snd ut)))"
    by (simp add: prepare_target_def Let_def)
  moreover have "target_step s
      (fst (except_RequestException [] (start_target (fst ut) s, probe (snd ut))))"
    by (rule target_step_quiet [OF target_step_start quiet_except_pair])
  ultimately show ?thesis by simp
qed

lemma target_step_body:
  assumes "target_body E cfg ut s = Some r"
  shows "target_step s (fst r)"
proof (cases "snd (prepare_target cfg ut s)")
  case (Some e)
  with assms have "r = prepare_target cfg ut s"
    by (simp add: target_body_def Let_def)
  then show ?thesis by (simp add: target_step_prepare)
next
  case None
  with assms obtain w where w: "wait E cfg (fuzz (snd ut)) (fst (prepare_target cfg ut s)) = Some w"
    and r: "r = except_RequestException ''Fatal error during site scanning: '' w"
    by (auto simp: target_body_def Let_def)
  from target_step_quiet [OF target_step_quiet [OF target_step_prepare quiet_wait [OF w]]
      quiet_except_RequestException [of w]] r
  show ?thesis by simp
qed

lemma run_target_shape:
  assumes "run_target E cfg ut s = Some r"
  shows "\<exists>mid. trace (fst r) = trace s @ RM_new # mid @ [RM_save]
             \<and> RM_new \<notin> set mid \<and> RM_close \<notin> set mid \<and> Log_close \<notin> set mid"
    and "errorLog_closed (fst r) = errorLog_closed s"
    and "has_reportManager (fst r)"
proof -
  from assms obtain b where b: "target_body E cfg ut s = Some b"
    and r: "fst r = (fst b)\<lparr>trace := trace (fst b) @ [RM_save]\<rparr>"
    by (auto simp: run_target_def split: option.splits)
  from target_step_body [OF b] r
  show "\<exists>mid. trace (fst r) = trace s @ RM_new # mid @ [RM_save]
             \<and> RM_new \<notin> set mid \<and> RM_close \<notin> set mid \<and> Log_close \<notin> set mid"
    and "errorLog_closed (fst r) = errorLog_closed s"
    and "has_reportManager (fst r)"
    by (auto simp: target_step_def)
qed

lemma run_targets_log:
  "run_targets E cfg uts s = Some r \<Longrightarrow>
     (\<exists>new. trace (fst r) = trace s @ new \<and> Log_close \<notin> set new)
     \<and> errorLog_closed (fst r) = errorLog_closed s"
proof (induction uts arbitrary: s)
  case Nil
  then show ?case by auto
next
  case (Cons ut uts)
  from Cons.prems obtain t where t: "run_target E cfg ut s = Some t"
    by (auto split: option.splits)
  from run_target_shape [OF t]
  have step: "\<exists>new. trace (fst t) = trace s @ new \<and> Log_close \<notin> set new"
    and closed: "errorLog_closed (fst t) = errorLog_closed s"
    by auto
  show ?case
  proof (cases "snd t")
    case (Some e)
    with Cons.prems t have "r = t" by simp
    with step closed show ?thesis by simp
  next
    case None
    with Cons.prems t have "run_targets E cfg uts (fst t) = Some r" by simp
    from Cons.IH [OF this] step closed show ?thesis by auto
  qed
qed

lemma controller_run_log:
  assumes run: "controller_run E cfg targets s = Some r"
    and "\<not> errorLog_closed s" and "Log_close \<notin> set (trace s)"
  shows "errorLog_closed (fst r)"
    and "count_list (trace (fst r)) Log_close = 1"
    and "\<exists>pre post. trace (fst r) = pre @ Log_close # post
           \<and> set post \<subseteq> {RM_close, Out_warning (CHR 0x0A # ''Task Completed'')}"
proof -
  from run obtain t where t: "run_targets E cfg targets s = Some t"
    by (auto simp: controller_run_def split: option.splits)
  from run_targets_log [OF t] assms(2,3)
  have nolog: "Log_close \<notin> set (trace (fst t))" and open_: "\<not> errorLog_closed (fst t)"
    by auto
  define h where "h = (if snd t = Some KeyboardInterrupt
                  then ((fst t)\<lparr>trace := trace (fst t) @
                           [Out_error (CHR 0x0A # ''Canceled by the user'')]\<rparr>,
                        Some (SystemExit 0))
                  else t)"
  have h: "Log_close \<notin> set (trace (fst h))" "\<not> errorLog_closed (fst h)"
    using nolog open_ by (simp_all add: h_def)
  define s2 where "s2 = (fst h)\<lparr>errorLog_closed := True, trace := trace (fst h) @ [Log_close]\<rparr>"
  have cases: "r = (s2, Some AttributeError)
      \<or> (\<exists>e. r = (s2\<lparr>trace := trace s2 @ [RM_close]\<rparr>, Some e))
      \<or> r = (s2\<lparr>trace := trace s2 @ [RM_close, Out_warning (CHR 0x0A # ''Task Completed'')]\<rparr>, None)"
    using run t h(2)
    by (auto simp: controller_run_def Let_def h_def [symmetric] s2_def [symmetric]
        split: option.splits if_splits)
  have tr: "trace s2 = trace (fst h) @ [Log_close]" and cl: "errorLog_closed s2"
    by (simp_all add: s2_def)
  from cases cl show "errorLog_closed (fst r)" by auto
  from cases tr h(1) show "count_list (trace (fst r)) Log_close = 1"
    by (auto simp: count_list_0_iff)
  from cases tr show "\<exists>pre post. trace (fst r) = pre @ Log_close # post
           \<and> set post \<subseteq> {RM_close, Out_warning (CHR 0x0A # ''Task Completed'')}"
    by (elim disjE exE) (rule exI [of _ "trace (fst h)"], force)+
qed

subsection \<open>Failures of one target and the final cleanup\<close>

lemma run_target_unreachable:
  "probe T = Some (RequestException m) \<Longrightarrow>
   run_target E cfg (u, T) s =
     Some ((start_target u s)\<lparr>trace := trace s @ [RM_new, Out_target u, Out_error m, RM_save]\<rparr>,
           None)"
  by (simp add: run_target_def target_body_def prepare_target_def Let_def
      except_RequestException_def start_target_def)

lemma run_target_after_wait:
  assumes "snd (prepare_target cfg ut s) = None"
    and "wait E cfg (fuzz (snd ut)) (fst (prepare_target cfg ut s)) = Some w"
  shows "run_target E cfg ut s =
     Some ((fst (except_RequestException ''Fatal error during site scanning: '' w))
             \<lparr>trace := trace (fst (except_RequestException
                  ''Fatal error during site scanning: '' w)) @ [RM_save]\<rparr>,
           if snd (except_RequestException ''Fatal error during site scanning: '' w)
              = Some SkipTargetInterrupt
           then None
           else snd (except_RequestException ''Fatal error during site scanning: '' w))"
  using assms by (simp add: run_target_def target_body_def Let_def)

text \<open>
  C7: a transport failure of the connectivity probe, a transport failure that ends the
  scan, and a skip of the target each leave \<open>run_target\<close> without an exception, after
  the report manager was saved, and the loop goes on with the next target. Whatever way a
  target is left, its trace is a new report manager, then events that neither create nor
  close one, then the save. And when the run ends, however its targets ended, the error
  log has been closed exactly once, with only the closing of the report manager and the
  completion message after it.
\<close>

theorem per_target_failures_contained:
  "(probe T1 = Some (RequestException m1) \<longrightarrow>
      run_target E cfg (u1, T1) s1 =
        Some ((start_target u1 s1)
                \<lparr>trace := trace s1 @ [RM_new, Out_target u1, Out_error m1, RM_save]\<rparr>, None))
   \<and> (snd (prepare_target cfg ut2 s2) = None
        \<and> wait E cfg (fuzz (snd ut2)) (fst (prepare_target cfg ut2 s2))
            = Some (w2, Some (RequestException m2)) \<longrightarrow>
      run_target E cfg ut2 s2 =
        Some (w2\<lparr>trace := trace w2 @
                 [Out_error (''Fatal error during site scanning: '' @ m2), RM_save]\<rparr>, None))
   \<and> (snd (prepare_target cfg ut3 s3) = None
        \<and> wait E cfg (fuzz (snd ut3)) (fst (prepare_target cfg ut3 s3))
            = Some (w3, Some SkipTargetInterrupt) \<longrightarrow>
      run_target E cfg ut3 s3 = Some (w3\<lparr>trace := trace w3 @ [RM_save]\<rparr>, None))
   \<and> (run_target E cfg ut4 s4 = Some (t4, None) \<longrightarrow>
      run_targets E cfg (ut4 # rest) s4 = run_targets E cfg rest t4)
   \<and> (run_target E cfg ut5 s5 = Some (t5, r5) \<longrightarrow>
      (\<exists>mid. trace t5 = trace s5 @ RM_new # mid @ [RM_save]
             \<and> RM_new \<notin> set mid \<and> RM_close \<notin> set mid))
   \<and> (controller_run E cfg targets s6 = Some (t6, r6)
        \<and> \<not> errorLog_closed s6 \<and> Log_close \<notin> set (trace s6) \<longrightarrow>
      errorLog_closed t6 \<and> count_list (trace t6) Log_close = 1
      \<and> (\<exists>pre post. trace t6 = pre @ Log_close # post
            \<and> set post \<subseteq> {RM_close, Out_warning (CHR 0x0A # ''Task Completed'')}))"
proof (intro conjI impI)
  assume "probe T1 = Some (RequestException m1)"
  then show "run_target E cfg (u1, T1) s1 =
        Some ((start_target u1 s1)
                \<lparr>trace := trace s1 @ [RM_new, Out_target u1, Out_error m1, RM_save]\<rparr>, None)"
    by (rule run_target_unreachable)
next
  assume "snd (prepare_target cfg ut2 s2) = None
        \<and> wait E cfg (fuzz (snd ut2)) (fst (prepare_target cfg ut2 s2))
            = Some (w2, Some (RequestException m2))"
  then have p: "snd (prepare_target cfg ut2 s2) = None"
    and w: "wait E cfg (fuzz (snd ut2)) (fst (prepare_target cfg ut2 s2))
            = Some (w2, Some (RequestException m2))"
    by simp_all
  show "run_target E cfg ut2 s2 =
        Some (w2\<lparr>trace := trace w2 @
                 [Out_error (''Fatal error during site scanning: '' @ m2), RM_save]\<rparr>, None)"
    by (simp add: run_target_after_wait [OF p w] except_RequestException_def)
next
  assume "snd (prepare_target cfg ut3 s3) = None
        \<and> wait E cfg (fuzz (snd ut3)) (fst (prepare_target cfg ut3 s3))
            = Some (w3, Some SkipTargetInterrupt)"
  then have p: "snd (prepare_target cfg ut3 s3) = None"
    and w: "wait E cfg (fuzz (snd ut3)) (fst (prepare_target cfg ut3 s3))
            = Some (w3, Some SkipTargetInterrupt)"
    by simp_all
  show "run_target E cfg ut3 s3 = Some (w3\<lparr>trace := trace w3 @ [RM_save]\<rparr>, None)"
    by (simp add: run_target_after_wait [OF p w] except_RequestException_def)
next
  assume "run_target E cfg ut4 s4 = Some (t4, None)"
  then show "run_targets E cfg (ut4 # rest) s4 = run_targets E cfg rest t4"
    by simp
next
  assume "run_target E cfg ut5 s5 = Some (t5, r5)"
  from run_target_shape(1) [OF this]
  show "\<exists>mid. trace t5 = trace s5 @ RM_new # mid @ [RM_save]
             \<and> RM_new \<notin> set mid \<and> RM_close \<notin> set mid"
    by auto
next
  assume a: "controller_run E cfg targets s6 = Some (t6, r6)
        \<and> \<not> errorLog_closed s6 \<and> Log_close \<notin> set (trace s6)"
  then have c: "controller_run E cfg targets s6 = Some (t6, r6)"
    and o: "\<not> errorLog_closed s6" and n: "Log_close \<notin> set (trace s6)"
    by simp_all
  from controller_run_log [OF c o n]
  show "errorLog_closed t6" and "count_list (trace t6) Log_close = 1"
    and "\<exists>pre post. trace t6 = pre @ Log_close # post
            \<and> set post \<subseteq> {RM_close, Out_warning (CHR 0x0A # ''Task Completed'')}"
    by simp_all
qed

text \<open>
  The run over four targets, the first unreachable, the second failing in the scan, the
  third skipped: each hypothesis holds there, every target is visited, and the error log
  is closed once, at the end.
\<close>

theorem per_target_failures_contained_witness:
  "probe unreachable_target = Some (RequestException ''refused'')
   \<and> run_target std_env sample_config (''http://a/'', unreachable_target) initial_state
       = Some (unreachable_end_state, None)
   \<and> snd (prepare_target sample_config (''http://b/'', failing_target) initial_state) = None
   \<and> wait std_env sample_config (fuzz failing_target)
         (fst (prepare_target sample_config (''http://b/'', failing_target) initial_state))
       = Some (failing_wait_state, Some (RequestException ''reset''))
   \<and> run_target std_env sample_config (''http://b/'', failing_target) initial_state
       = Some (failing_wait_state\<lparr>trace := trace failing_wait_state @
                 [Out_error ''Fatal error during site scanning: reset'', RM_save]\<rparr>, None)
   \<and> snd (prepare_target sample_config (''http://c/'', skipped_target) initial_state) = None
   \<and> wait std_env sample_config (fuzz skipped_target)
         (fst (prepare_target sample_config (''http://c/'', skipped_target) initial_state))
       = Some (skipped_wait_state, Some SkipTargetInterrupt)
   \<and> run_target std_env sample_config (''http://c/'', skipped_target) initial_state
       = Some (skipped_wait_state\<lparr>trace := trace skipped_wait_state @ [RM_save]\<rparr>, None)
   \<and> run_targets std_env sample_config four_targets initial_state
       = run_targets std_env sample_config (tl four_targets) unreachable_end_state
   \<and> (\<exists>mid. trace unreachable_end_state = trace initial_state @ RM_new # mid @ [RM_save]
             \<and> RM_new \<notin> set mid \<and> RM_close \<notin> set mid)
   \<and> controller_run std_env sample_config four_targets initial_state
       = Some (four_targets_final, None)
   \<and> \<not> errorLog_closed initial_state \<and> Log_close \<notin> set (trace initial_state)
   \<and> errorLog_closed four_targets_final
   \<and> count_list (trace four_targets_final) Log_close = 1"
proof -
  have h1: "probe unreachable_target = Some (RequestException ''refused'')"
    by (simp add: unreachable_target_def)
  have h2: "snd (prepare_target sample_config (''http://b/'', failing_target) initial_state) = None
      \<and> wait std_env sample_config (fuzz (snd (''http://b/'', failing_target)))
           (fst (prepare_target sample_config (''http://b/'', failing_target) initial_state))
         = Some (failing_wait_state, Some (RequestException ''reset''))"
    by code_simp
  have h3: "snd (prepare_target sample_config (''http://c/'', skipped_target) initial_state) = None
      \<and> wait std_env sample_config (fuzz (snd (''http://c/'', skipped_target)))
           (fst (prepare_target sample_config (''http://c/'', skipped_target) initial_state))
         = Some (skipped_wait_state, Some SkipTargetInterrupt)"
    by code_simp
  have e: "(start_target ''http://a/'' initial_state)
             \<lparr>trace := trace initial_state @
                [RM_new, Out_target ''http://a/'', Out_error ''refused'', RM_save]\<rparr>
           = unreachable_end_state"
    by (simp add: start_target_def unreachable_end_state_def initial_state_def)
  have h4: "run_target std_env sample_config (''http://a/'', unreachable_target) initial_state
      = Some (unreachable_end_state, None)"
    using run_target_unreachable [OF h1, of std_env sample_config "''http://a/''" initial_state]
    by (simp add: e)
  have h6: "controller_run std_env sample_config four_targets initial_state
      = Some (four_targets_final, None)
      \<and> \<not> errorLog_closed initial_state \<and> Log_close \<notin> set (trace initial_state)"
    by code_simp
  have l: "four_targets = (''http://a/'', unreachable_target) # tl four_targets"
    by (simp add: four_targets_def)
  note T = per_target_failures_contained
      [of unreachable_target "''refused''" std_env sample_config "''http://a/''" initial_state
        "(''http://b/'', failing_target)" initial_state failing_wait_state "''reset''"
        "(''http://c/'', skipped_target)" initial_state skipped_wait_state
        "(''http://a/'', unreachable_target)" initial_state unreachable_end_state
        "tl four_targets"
        "(''http://a/'', unreachable_target)" initial_state unreachable_end_state None
        four_targets initial_state four_targets_final None]
  from T h1 h2 h3 h4 h6 l show ?thesis
    by (simp add: e)
qed

end
